theory Spec2Isabelle
  imports Complex_Main
begin

section \<open>JavaScript values\<close>

text \<open>
  A JavaScript string is a sequence of UTF-16 code units and \<open>length\<close> counts code
  units, so request text is a list of code units (naturals below 65536). Property names,
  event names and the string constants of the code are ASCII and are written as HOL
  strings; \<open>js\<close> turns such a constant into a JavaScript string.
\<close>

type_synonym js_string = "nat list"

definition js :: "string \<Rightarrow> js_string" where
  "js s = map of_char s"

text \<open>
  The values a parsed JSON request body or a socket property can hold. Numbers are
  the finite ones (a JSON text has no NaN); \<open>JUndefined\<close> is a property that is not
  there.
\<close>

datatype json =
    JUndefined
  | JNull
  | JBool bool
  | JNum real
  | JStr js_string
  | JArr "json list"
  | JObj "(string \<times> json) list"

text \<open>ToBoolean: what \<open>!v\<close> and \<open>v || d\<close> test.\<close>

fun truthy :: "json \<Rightarrow> bool" where
  "truthy JUndefined = False"
| "truthy JNull = False"
| "truthy (JBool b) = b"
| "truthy (JNum r) = (r \<noteq> 0)"
| "truthy (JStr s) = (s \<noteq> [])"
| "truthy (JArr vs) = True"
| "truthy (JObj kvs) = True"

text \<open>
  Property read \<open>v.k\<close> for the named properties the handlers read: an object gives
  its field, anything else \<open>undefined\<close>.
\<close>

fun lookup_field :: "string \<Rightarrow> (string \<times> json) list \<Rightarrow> json" where
  "lookup_field k [] = JUndefined"
| "lookup_field k ((k', v) # kvs) = (if k = k' then v else lookup_field k kvs)"

fun field :: "json \<Rightarrow> string \<Rightarrow> json" where
  "field (JObj kvs) k = lookup_field k kvs"
| "field v k = JUndefined"

text \<open>
  \<open>String.prototype.trim\<close> removes WhiteSpace and LineTerminator code units from both
  ends: TAB, LF, VT, FF, CR, SP, NBSP, the Unicode space separators and the BOM.
\<close>

definition is_white_space :: "nat \<Rightarrow> bool" where
  "is_white_space c =
     (c \<in> set [0x9, 0xA, 0xB, 0xC, 0xD, 0x20, 0xA0, 0x1680, 0x2028, 0x2029, 0x202F,
               0x205F, 0x3000, 0xFEFF]
      \<or> (0x2000 \<le> c \<and> c \<le> 0x200A))"

definition trim :: "js_string \<Rightarrow> js_string" where
  "trim s = rev (dropWhile is_white_space (rev (dropWhile is_white_space s)))"

section \<open>Rooms and emissions of the socket layer\<close>

text \<open>
  A room is named by a template string, \<open>`chat-${id}`\<close>: a constant prefix and the
  value spliced in. Two values that render to the same text (the number 4 and the
  string \<open>"4"\<close>) name one room in the code and two rooms here; the properties below
  hold for every registry, so they do not depend on it. The registry maps a room to
  the sockets that joined it, each once (the adapter keeps a set). An emission is one
  event written to one socket.
\<close>

datatype room = Room string json

type_synonym socket_id = nat

type_synonym rooms = "room \<Rightarrow> socket_id list"

record emission =
  em_to :: socket_id
  em_event :: string
  em_payload :: json

text \<open>\<open>io.to(room).emit(ev, p)\<close>: every member of the room, the sender included.\<close>

definition io_to_emit :: "rooms \<Rightarrow> room \<Rightarrow> string \<Rightarrow> json \<Rightarrow> emission list" where
  "io_to_emit rs r ev p = map (\<lambda>m. \<lparr>em_to = m, em_event = ev, em_payload = p\<rparr>) (rs r)"

text \<open>\<open>socket.to(room).emit(ev, p)\<close>: every member of the room but the socket itself.\<close>

definition socket_to_emit :: "rooms \<Rightarrow> socket_id \<Rightarrow> room \<Rightarrow> string \<Rightarrow> json \<Rightarrow> emission list" where
  "socket_to_emit rs s r ev p =
     map (\<lambda>m. \<lparr>em_to = m, em_event = ev, em_payload = p\<rparr>) (filter (\<lambda>m. m \<noteq> s) (rs r))"

text \<open>\<open>socket.emit(ev, p)\<close>: the socket alone.\<close>

definition socket_emit :: "socket_id \<Rightarrow> string \<Rightarrow> json \<Rightarrow> emission list" where
  "socket_emit s ev p = [\<lparr>em_to = s, em_event = ev, em_payload = p\<rparr>]"

definition error_payload :: "string \<Rightarrow> json" where
  "error_payload m = JObj [(''message'', JStr (js m))]"

section \<open>chatHandler: send-message\<close>

text \<open>The properties the chat handler keeps on the socket object.\<close>

record chat_socket =
  sock_id :: socket_id
  chatId :: json
  userId :: json
  userName :: json
  userType :: json

text \<open>A row of \<open>chat_messages\<close> as the INSERT of send-message writes it.\<close>

record chat_message_row =
  row_chat_id :: json
  row_sender_id :: json
  row_message :: js_string
  row_message_type :: json

text \<open>
  What the handler reads from outside: the outcome of the INSERT (its RETURNING id and
  created_at, or \<open>None\<close> when the query throws), whether the UPDATE of
  \<open>support_chats\<close> goes through, and \<open>new Date().toISOString()\<close>.
\<close>

record chat_env =
  insert_returning :: "(json \<times> json) option"
  update_ok :: bool
  now_iso :: js_string

definition messageData :: "chat_env \<Rightarrow> chat_socket \<Rightarrow> json \<Rightarrow> json \<Rightarrow> js_string \<Rightarrow> json \<Rightarrow> json" where
  "messageData env sock new_id created_at text messageType =
     JObj [(''id'', new_id),
           (''chatId'', chatId sock),
           (''senderId'', userId sock),
           (''senderName'', userName sock),
           (''senderType'', userType sock),
           (''message'', JStr text),
           (''messageType'', messageType),
           (''createdAt'', created_at),
           (''timestamp'', JStr (now_iso env))]"

definition message_sent_payload :: "chat_env \<Rightarrow> json \<Rightarrow> json \<Rightarrow> json" where
  "message_sent_payload env tempId new_id =
     JObj [(''tempId'', tempId), (''messageId'', new_id), (''timestamp'', JStr (now_iso env))]"

text \<open>
  The handler of \<open>send-message\<close>. It returns the rows it stored and the emissions it
  made, in order. Destructuring \<open>undefined\<close> or \<open>null\<close>, and calling \<open>trim\<close> on a
  truthy value that is not a string, throw a TypeError inside the \<open>try\<close>: the
  \<open>catch\<close> emits \<open>Failed to send message\<close>, as it does when a query throws.
\<close>

definition send_message ::
  "chat_env \<Rightarrow> rooms \<Rightarrow> chat_socket \<Rightarrow> json \<Rightarrow> chat_message_row list \<times> emission list" where
  "send_message env rs sock data =
     (let failed = ([], socket_emit (sock_id sock) ''error'' (error_payload ''Failed to send message''))
      in if data = JUndefined \<or> data = JNull then failed
      else
        let message = field data ''message'';
            messageType = (if field data ''messageType'' = JUndefined then JStr (js ''text'')
                           else field data ''messageType'')
        in if \<not> truthy (chatId sock) \<or> \<not> truthy (userId sock) then
             ([], socket_emit (sock_id sock) ''error'' (error_payload ''Not connected to any chat''))
           else if \<not> truthy message then
             ([], socket_emit (sock_id sock) ''error'' (error_payload ''Message cannot be empty''))
           else (case message of
               JStr s \<Rightarrow>
                 if length (trim s) = 0 then
                   ([], socket_emit (sock_id sock) ''error'' (error_payload ''Message cannot be empty''))
                 else if length s > 1000 then
                   ([], socket_emit (sock_id sock) ''error''
                          (error_payload ''Message too long (max 1000 characters)''))
                 else (case insert_returning env of
                     None \<Rightarrow> failed
                   | Some (new_id, created_at) \<Rightarrow>
                       let stored = [\<lparr>row_chat_id = chatId sock, row_sender_id = userId sock,
                                      row_message = trim s, row_message_type = messageType\<rparr>]
                       in if \<not> update_ok env then
                            (stored, socket_emit (sock_id sock) ''error''
                                       (error_payload ''Failed to send message''))
                          else
                            (stored,
                             io_to_emit rs (Room ''chat-'' (chatId sock)) ''new-message''
                               (messageData env sock new_id created_at (trim s) messageType)
                             @ socket_emit (sock_id sock) ''message-sent''
                                 (message_sent_payload env (field data ''tempId'') new_id)))
             | _ \<Rightarrow> failed))"

text \<open>The texts a run of the handler stored, and the texts it broadcast as \<open>new-message\<close>.\<close>

definition stored_texts :: "chat_message_row list \<times> emission list \<Rightarrow> js_string list" where
  "stored_texts res = map row_message (fst res)"

definition broadcast_texts :: "chat_message_row list \<times> emission list \<Rightarrow> json list" where
  "broadcast_texts res =
     map (\<lambda>e. field (em_payload e) ''message'') (filter (\<lambda>e. em_event e = ''new-message'') (snd res))"

definition error_emissions :: "chat_message_row list \<times> emission list \<Rightarrow> emission list" where
  "error_emissions res = filter (\<lambda>e. em_event e = ''error'') (snd res)"

text \<open>How many times an event was written to a socket.\<close>

definition deliveries :: "string \<Rightarrow> socket_id \<Rightarrow> emission list \<Rightarrow> nat" where
  "deliveries ev s ems = length (filter (\<lambda>e. em_event e = ev \<and> em_to e = s) ems)"

text \<open>
  The inputs on which send-message reaches its broadcast: a data object, a socket that
  joined a chat, a string that is not blank and has at most 1000 code units, and both
  queries going through.
\<close>

definition accepted :: "chat_env \<Rightarrow> chat_socket \<Rightarrow> json \<Rightarrow> bool" where
  "accepted env sock data =
     (data \<noteq> JUndefined \<and> data \<noteq> JNull \<and> truthy (chatId sock) \<and> truthy (userId sock)
      \<and> (case field data ''message'' of
            JStr s \<Rightarrow> trim s \<noteq> [] \<and> length s \<le> 1000
          | _ \<Rightarrow> False)
      \<and> insert_returning env \<noteq> None \<and> update_ok env)"

subsection \<open>Example run: a chat room and a message\<close>

definition example_chat_env :: chat_env where
  "example_chat_env =
     \<lparr>insert_returning = Some (JNum 7, JStr (js ''2024-01-01T00:00:00.000Z'')),
      update_ok = True, now_iso = js ''2024-01-01T00:00:00.001Z''\<rparr>"

definition example_sender :: chat_socket where
  "example_sender =
     \<lparr>sock_id = 1, chatId = JNum 5, userId = JNum 9, userName = JStr (js ''Al B''),
      userType = JStr (js ''customer'')\<rparr>"

definition three_members :: rooms where
  "three_members = (\<lambda>r. if r = Room ''chat-'' (JNum 5) then [1, 2, 3] else [])"

definition ten_members :: rooms where
  "ten_members = (\<lambda>r. if r = Room ''chat-'' (JNum 5) then [1, 2, 3, 4, 5, 6, 7, 8, 9, 10] else [])"

definition padded_hi :: json where
  "padded_hi = JObj [(''message'', JStr (js '' hi '')), (''tempId'', JNum 1)]"

definition blank_message :: json where
  "blank_message = JObj [(''message'', JStr (js ''   ''))]"

section \<open>The streaming registry of driver.js\<close>

text \<open>
  \<open>sseConnections\<close> is a Map from an order id to a Set of response objects. A Set
  iterates in insertion order and holds each element once, so it is a list without
  repetitions; a response object is known by its identity. Map keys compare by value
  and type: the string \<open>"5"\<close> and the number \<open>5\<close> are different keys.
\<close>

type_synonym handle = nat

type_synonym registry = "json \<Rightarrow> handle list option"

definition set_add :: "handle \<Rightarrow> handle list \<Rightarrow> handle list" where
  "set_add h hs = (if h \<in> set hs then hs else hs @ [h])"

definition set_delete :: "handle \<Rightarrow> handle list \<Rightarrow> handle list" where
  "set_delete h hs = filter (\<lambda>x. x \<noteq> h) hs"

text \<open>
  The frames, as the objects given to \<open>JSON.stringify\<close> before
  \<open>res.write(`data: ...\n\n`)\<close>.
\<close>

definition location_frame :: "json \<Rightarrow> json \<Rightarrow> js_string \<Rightarrow> json \<Rightarrow> json" where
  "location_frame lat lng ts orderId =
     JObj [(''type'', JStr (js ''location_update'')),
           (''data'', JObj [(''latitude'', lat), (''longitude'', lng),
                            (''timestamp'', JStr ts), (''orderId'', orderId)])]"

definition heartbeat_frame :: "js_string \<Rightarrow> json" where
  "heartbeat_frame ts =
     JObj [(''type'', JStr (js ''heartbeat'')),
           (''data'', JObj [(''timestamp'', JStr ts)])]"

definition connection_established_frame :: "json \<Rightarrow> json" where
  "connection_established_frame orderId =
     JObj [(''type'', JStr (js ''connection_established'')),
           (''data'', JObj [(''orderId'', orderId),
                            (''message'', JStr (js ''Connected to driver location updates''))])]"

text \<open>The names of the top-level fields of a frame, in order.\<close>

fun top_level_fields :: "json \<Rightarrow> string list" where
  "top_level_fields (JObj kvs) = map fst kvs"
| "top_level_fields v = []"

text \<open>
  \<open>connections.forEach((res) => { try { res.write(frame) } catch { connections.delete(res) } })\<close>.
  \<open>writable h\<close> says that the write to \<open>h\<close> does not throw. The loop visits every
  element of the Set; deleting the element being visited does not disturb the rest of
  the visit. The result is the Set after the loop and the writes that went through.
\<close>

fun push_loop ::
  "(handle \<Rightarrow> bool) \<Rightarrow> json \<Rightarrow> handle list \<Rightarrow> handle list \<Rightarrow> (handle \<times> json) list
     \<Rightarrow> handle list \<times> (handle \<times> json) list" where
  "push_loop writable frame [] connections written = (connections, written)"
| "push_loop writable frame (res # rest) connections written =
     (if writable res then push_loop writable frame rest connections (written @ [(res, frame)])
      else push_loop writable frame rest (set_delete res connections) written)"

text \<open>
  The push of PUT /api/driver/location: nothing happens when the order has no entry or
  an empty Set; otherwise the loop runs and the Set object, mutated in place, stays in
  the Map under the same key.
\<close>

definition sse_push ::
  "(handle \<Rightarrow> bool) \<Rightarrow> json \<Rightarrow> json \<Rightarrow> registry \<Rightarrow> registry \<times> (handle \<times> json) list" where
  "sse_push writable frame orderId sseConnections =
     (case sseConnections orderId of
        None \<Rightarrow> (sseConnections, [])
      | Some connections \<Rightarrow>
          if length connections > 0 then
            (let (connections', written) = push_loop writable frame connections connections []
             in (sseConnections(orderId \<mapsto> connections'), written))
          else (sseConnections, []))"

text \<open>Opening a stream: the Set is created when the order has none, then the response is added.\<close>

definition sse_open :: "handle \<Rightarrow> json \<Rightarrow> registry \<Rightarrow> registry" where
  "sse_open res orderId sseConnections =
     (case sseConnections orderId of
        None \<Rightarrow> sseConnections(orderId \<mapsto> set_add res [])
      | Some connections \<Rightarrow> sseConnections(orderId \<mapsto> set_add res connections))"

text \<open>
  The handler of the request's \<open>close\<close> event: the response leaves the Set, and the
  entry is deleted when the Set is then empty.
\<close>

definition on_close :: "handle \<Rightarrow> json \<Rightarrow> registry \<Rightarrow> registry" where
  "on_close res orderId sseConnections =
     (case sseConnections orderId of
        None \<Rightarrow> sseConnections
      | Some connections \<Rightarrow>
          if length (set_delete res connections) = 0 then sseConnections(orderId := None)
          else sseConnections(orderId \<mapsto> set_delete res connections))"

text \<open>
  One tick of the 30 second heartbeat timer of a stream: the frame is written, or, when
  the write throws, the timer is cleared and the response leaves the Set. The result
  is the registry, the writes, and whether the timer is still running.
\<close>

definition heartbeat_tick ::
  "(handle \<Rightarrow> bool) \<Rightarrow> js_string \<Rightarrow> handle \<Rightarrow> json \<Rightarrow> registry
     \<Rightarrow> registry \<times> (handle \<times> json) list \<times> bool" where
  "heartbeat_tick writable ts res orderId sseConnections =
     (if writable res then (sseConnections, [(res, heartbeat_frame ts)], True)
      else (case sseConnections orderId of
              None \<Rightarrow> (sseConnections, [], False)
            | Some connections \<Rightarrow>
                (sseConnections(orderId \<mapsto> set_delete res connections), [], False)))"

section \<open>PUT /api/driver/location\<close>

record http_response =
  status_code :: nat
  body :: json

definition error_body :: "string \<Rightarrow> json" where
  "error_body m = JObj [(''error'', JStr (js m))]"

text \<open>What a request leaves behind: a row written, a cache entry set, a frame pushed.\<close>

datatype cache_key = Key string json

datatype effect =
    DbUpsertLocation json json json json
  | CacheSet cache_key json nat
  | SseWrite handle json

text \<open>
  What the handler reads from outside. \<open>order_check\<close> is the SELECT on \<open>orders\<close>:
  \<open>None\<close> when the query throws, \<open>Some None\<close> for no row, \<open>Some (Some c)\<close> for a row
  with customer id \<open>c\<close>. \<open>upsert_ok\<close> and \<open>cache_ok\<close> say that the INSERT and the
  \<open>setWithExpiry\<close> do not throw. \<open>coerce_number\<close> is ToNumber on a string, array or
  object and \<open>parse_float\<close> is \<open>parseFloat\<close> on a value that is not a number; both
  give \<open>None\<close> for NaN.
\<close>

record location_env =
  order_check :: "json option option"
  upsert_ok :: bool
  cache_ok :: bool
  loc_now_iso :: js_string
  write_ok :: "handle \<Rightarrow> bool"
  coerce_number :: "json \<Rightarrow> real option"
  parse_float :: "json \<Rightarrow> real option"

text \<open>ToNumber, for the comparisons \<open>v < c\<close> and \<open>v > c\<close>; a comparison with NaN is false.\<close>

definition to_number :: "location_env \<Rightarrow> json \<Rightarrow> real option" where
  "to_number env v =
     (case v of
        JNum r \<Rightarrow> Some r
      | JNull \<Rightarrow> Some 0
      | JBool b \<Rightarrow> Some (if b then 1 else 0)
      | JUndefined \<Rightarrow> None
      | _ \<Rightarrow> coerce_number env v)"

definition js_less :: "location_env \<Rightarrow> json \<Rightarrow> real \<Rightarrow> bool" where
  "js_less env v c = (case to_number env v of None \<Rightarrow> False | Some r \<Rightarrow> r < c)"

definition js_greater :: "location_env \<Rightarrow> json \<Rightarrow> real \<Rightarrow> bool" where
  "js_greater env v c = (case to_number env v of None \<Rightarrow> False | Some r \<Rightarrow> r > c)"

text \<open>\<open>parseFloat(v)\<close> as it is serialised: a number, or \<open>null\<close> for NaN.\<close>

definition parseFloat :: "location_env \<Rightarrow> json \<Rightarrow> json" where
  "parseFloat env v =
     (case v of
        JNum r \<Rightarrow> JNum r
      | _ \<Rightarrow> (case parse_float env v of None \<Rightarrow> JNull | Some r \<Rightarrow> JNum r))"

definition locationData :: "location_env \<Rightarrow> json \<Rightarrow> json \<Rightarrow> json \<Rightarrow> json \<Rightarrow> json \<Rightarrow> json" where
  "locationData env driverId orderId latitude longitude customer_id =
     JObj [(''driverId'', driverId),
           (''orderId'', orderId),
           (''latitude'', parseFloat env latitude),
           (''longitude'', parseFloat env longitude),
           (''timestamp'', JStr (loc_now_iso env)),
           (''customerId'', customer_id)]"

text \<open>
  The handler, after \<open>authenticateToken\<close> and \<open>authorize(['driver'])\<close> let the request
  through. It returns the response, the effects in order, and the registry.
\<close>

definition put_location ::
  "location_env \<Rightarrow> json \<Rightarrow> json \<Rightarrow> registry \<Rightarrow> http_response \<times> effect list \<times> registry" where
  "put_location env driverId req_body sseConnections =
     (let failed = \<lparr>status_code = 500, body = error_body ''Failed to update location''\<rparr>
      in if req_body = JUndefined \<or> req_body = JNull then (failed, [], sseConnections)
      else
        let orderId = field req_body ''orderId'';
            latitude = field req_body ''latitude'';
            longitude = field req_body ''longitude''
        in if \<not> truthy orderId \<or> \<not> truthy latitude \<or> \<not> truthy longitude then
             (\<lparr>status_code = 400,
               body = error_body ''Order ID, latitude, and longitude are required''\<rparr>,
              [], sseConnections)
           else if js_less env latitude (- 90) \<or> js_greater env latitude 90
                   \<or> js_less env longitude (- 180) \<or> js_greater env longitude 180 then
             (\<lparr>status_code = 400, body = error_body ''Invalid coordinates''\<rparr>, [], sseConnections)
           else (case order_check env of
               None \<Rightarrow> (failed, [], sseConnections)
             | Some None \<Rightarrow>
                 (\<lparr>status_code = 403,
                   body = error_body
                     ''Order not found or not assigned to you, or not in delivery phase''\<rparr>,
                  [], sseConnections)
             | Some (Some customer_id) \<Rightarrow>
                 if \<not> upsert_ok env then (failed, [], sseConnections)
                 else
                   let upsert = DbUpsertLocation driverId orderId latitude longitude;
                       loc = locationData env driverId orderId latitude longitude customer_id
                   in if \<not> cache_ok env then (failed, [upsert], sseConnections)
                      else
                        let cached = CacheSet (Key ''driver_location:'' orderId) loc 300;
                            frame = location_frame (parseFloat env latitude)
                                      (parseFloat env longitude) (loc_now_iso env) orderId;
                            (sseConnections', written) =
                              sse_push (write_ok env) frame orderId sseConnections
                        in (\<lparr>status_code = 200,
                              body = JObj [(''message'', JStr (js ''Location updated successfully'')),
                                           (''timestamp'', JStr (loc_now_iso env))]\<rparr>,
                            [upsert, cached] @ map (\<lambda>(h, f). SseWrite h f) written,
                            sseConnections')))"

subsection \<open>Example: an order watched by three streams\<close>

definition three_streams :: registry where
  "three_streams = Map.empty(JNum 12 \<mapsto> [1, 2, 3])"

definition one_stream :: registry where
  "one_stream = Map.empty(JNum 12 \<mapsto> [1])"

definition second_is_dead :: "handle \<Rightarrow> bool" where
  "second_is_dead h = (h \<noteq> 2)"

definition all_dead :: "handle \<Rightarrow> bool" where
  "all_dead h = False"

definition example_frame :: json where
  "example_frame = location_frame (JNum 40) (JNum (- 74)) (js ''t'') (JNum 12)"

definition example_location_env :: location_env where
  "example_location_env =
     \<lparr>order_check = Some (Some (JNum 3)), upsert_ok = True, cache_ok = True,
      loc_now_iso = js ''t'', write_ok = (\<lambda>h. True),
      coerce_number = (\<lambda>v. None), parse_float = (\<lambda>v. None)\<rparr>"

definition zero_latitude_body :: json where
  "zero_latitude_body = JObj [(''orderId'', JNum 12), (''latitude'', JNum 0), (''longitude'', JNum 10)]"

definition zero_longitude_body :: json where
  "zero_longitude_body = JObj [(''orderId'', JNum 12), (''latitude'', JNum 10), (''longitude'', JNum 0)]"

definition missing_latitude_body :: json where
  "missing_latitude_body = JObj [(''orderId'', JNum 12), (''longitude'', JNum 10)]"

text \<open>The answer to a request whose required fields fail the presence check.\<close>

definition required_response :: http_response where
  "required_response =
     \<lparr>status_code = 400, body = error_body ''Order ID, latitude, and longitude are required''\<rparr>"

section \<open>GET /api/images/status/:uploadId: the long poll\<close>

text \<open>What a query gives back: it throws, it finds no row, or it finds the row.\<close>

datatype 'a query_result = QueryError | NoRow | Row 'a

text \<open>The columns of \<open>image_uploads\<close> the handler selects; \<open>progress\<close> is an INTEGER.\<close>

record upload_row =
  u_status :: string
  u_progress :: int
  u_error_message :: json
  u_updated_at :: json

text \<open>
  The JSON answers of the handler. \<open>s_timeout\<close> is the \<open>timeout: true\<close> of the answer given
  when the wait ran out; \<open>s_polling\<close> is \<open>polling: {continue, nextPollDelay}\<close> where
  the answer has one.
\<close>

record status_body =
  s_status :: string
  s_progress :: int
  s_errorMessage :: json
  s_lastUpdated :: json
  s_completed :: bool
  s_timeout :: bool
  s_polling :: "(bool \<times> nat) option"

datatype poll_result = Status status_body | Failure nat string

definition terminal :: "string \<Rightarrow> bool" where
  "terminal st = (st \<in> set [''completed'', ''failed''])"

definition maxTimeout :: int where
  "maxTimeout = 60000"

definition pollInterval :: int where
  "pollInterval = 1000"

text \<open>
  \<open>parseInt(req.query.timeout) || 30000\<close>: the argument is what \<open>parseInt\<close> gives,
  \<open>None\<close> for NaN. NaN and 0 are both falsy and give the default.
\<close>

definition requested_timeout :: "int option \<Rightarrow> int" where
  "requested_timeout parsed = (case parsed of None \<Rightarrow> 30000 | Some t \<Rightarrow> if t = 0 then 30000 else t)"

definition pollTimeout_of :: "int option \<Rightarrow> int" where
  "pollTimeout_of parsed = min (requested_timeout parsed) maxTimeout"

text \<open>
  The answer after the loop: the row is read once more. When it is gone,
  \<open>final.status\<close> throws a TypeError and the \<open>catch\<close> answers 500.
\<close>

definition final_status :: "(int \<Rightarrow> upload_row query_result) \<Rightarrow> int \<Rightarrow> int \<times> poll_result" where
  "final_status db elapsed =
     (case db elapsed of
        Row final \<Rightarrow>
          (elapsed,
           Status \<lparr>s_status = u_status final, s_progress = u_progress final,
                   s_errorMessage = u_error_message final, s_lastUpdated = u_updated_at final,
                   s_completed = terminal (u_status final), s_timeout = True,
                   s_polling = Some (\<not> terminal (u_status final), 2000)\<rparr>)
      | _ \<Rightarrow> (elapsed, Failure 500 ''Failed to get upload status''))"

text \<open>
  \<open>pollForChanges\<close>. Time is the number of milliseconds since \<open>startTime\<close>, on a clock
  that only the awaited \<open>setTimeout(resolve, pollInterval)\<close> advances, by exactly
  \<open>pollInterval\<close>; \<open>db t\<close> is what the SELECT by id gives at time \<open>t\<close>; \<open>upload\<close> is
  the row read before the loop. The result is the time of the answer and the answer.
  This clock gives the order of the polls; the wall clock, on which a query takes time
  and a timer may fire late, is \<open>pollForChanges_timed\<close> below.
\<close>

function pollForChanges ::
  "(int \<Rightarrow> upload_row query_result) \<Rightarrow> upload_row \<Rightarrow> int \<Rightarrow> int \<Rightarrow> int \<times> poll_result" where
  "pollForChanges db upload pollTimeout elapsed =
     (if elapsed < pollTimeout then
        (case db elapsed of
           QueryError \<Rightarrow> (elapsed, Failure 500 ''Failed to get upload status'')
         | NoRow \<Rightarrow> final_status db elapsed
         | Row current \<Rightarrow>
             if terminal (u_status current) then
               (elapsed,
                Status \<lparr>s_status = u_status current, s_progress = u_progress current,
                        s_errorMessage = u_error_message current,
                        s_lastUpdated = u_updated_at current,
                        s_completed = True, s_timeout = False, s_polling = None\<rparr>)
             else if \<bar>u_progress current - u_progress upload\<bar> \<ge> 5 then
               (elapsed,
                Status \<lparr>s_status = u_status current, s_progress = u_progress current,
                        s_errorMessage = u_error_message current,
                        s_lastUpdated = u_updated_at current,
                        s_completed = False, s_timeout = False,
                        s_polling = Some (True, 2000)\<rparr>)
             else pollForChanges db upload pollTimeout (elapsed + pollInterval))
      else final_status db elapsed)"
  by pat_completeness auto
termination
  by (relation "measure (\<lambda>(db, upload, pollTimeout, elapsed). nat (pollTimeout - elapsed))")
     (auto simp: pollInterval_def)


text \<open>A row that does not end the wait: not terminal, and progress within 5 of the known one.\<close>

definition quiet :: "upload_row \<Rightarrow> upload_row \<Rightarrow> bool" where
  "quiet upload current =
     (\<not> terminal (u_status current) \<and> \<bar>u_progress current - u_progress upload\<bar> < 5)"

definition never_changes :: "upload_row \<Rightarrow> (int \<Rightarrow> upload_row query_result) \<Rightarrow> bool" where
  "never_changes upload db = (\<forall>t. \<exists>current. db t = Row current \<and> quiet upload current)"

subsection \<open>Example: an upload at 50 percent\<close>

definition processing_50 :: upload_row where
  "processing_50 =
     \<lparr>u_status = ''processing'', u_progress = 50, u_error_message = JNull,
      u_updated_at = JStr (js ''t0'')\<rparr>"


definition stuck_at_50 :: "int \<Rightarrow> upload_row query_result" where
  "stuck_at_50 t = Row processing_50"


section \<open>PUT /api/orders/:orderId/status\<close>

text \<open>
  The tables the route reads and writes, and the status cache. An order is known by its
  integer id (the path parameter, as the database reads it); \<open>restaurants\<close> maps a
  restaurant to the user that owns it; the cache entry of an order is the one stored
  under \<open>`order_status:${orderId}`\<close>, of which the route touches \<open>status\<close> and
  \<open>lastUpdated\<close>. The cache is keyed here by that integer: two path texts of one
  integer (\<open>1\<close> and \<open>01\<close>) are one key here and two keys in the code.
\<close>

record order_row =
  o_status :: js_string
  o_restaurant_id :: int
  o_driver_id :: "int option"
  o_customer_id :: int

record cached_status =
  c_status :: js_string
  c_lastUpdated :: js_string

record order_db =
  orders :: "int \<Rightarrow> order_row option"
  restaurants :: "int \<Rightarrow> int option"
  cache :: "int \<Rightarrow> cached_status option"

text \<open>
  Whether the database and the cache answer (a query that throws ends in the \<open>catch\<close>),
  \<open>new Date().toISOString()\<close>, and the \<open>updated_at\<close> that the UPDATE returns.
\<close>

record orders_env =
  db_up :: bool
  cache_up :: bool
  ord_now_iso :: js_string
  db_updated_at :: json

definition validStatuses :: "string list" where
  "validStatuses = [''confirmed'', ''preparing'', ''ready'', ''picked_up'', ''delivered'', ''cancelled'']"

text \<open>\<open>list.includes(v)\<close> for a list of string constants: strict equality, so only a string matches.\<close>

definition js_includes :: "string list \<Rightarrow> json \<Rightarrow> bool" where
  "js_includes xs v = (v \<in> set (map (\<lambda>x. JStr (js x)) xs))"

definition string_list :: "string list \<Rightarrow> json" where
  "string_list xs = JArr (map (\<lambda>x. JStr (js x)) xs)"

text \<open>The text of a status that passed \<open>includes\<close>, as the UPDATE stores it.\<close>

fun status_text :: "json \<Rightarrow> js_string" where
  "status_text (JStr s) = s"
| "status_text v = []"

text \<open>
  \<open>UPDATE orders SET status = $1 ... FROM restaurants r WHERE orders.id = $2 AND
  orders.restaurant_id = r.id AND r.user_id = $3 RETURNING ...\<close>: the row it updates,
  if any. The WHERE clause does not read the status the order has.
\<close>

definition restaurant_update :: "order_db \<Rightarrow> js_string \<Rightarrow> int \<Rightarrow> int \<Rightarrow> order_row option" where
  "restaurant_update db new_status orderId user_id =
     (case orders db orderId of
        None \<Rightarrow> None
      | Some ord \<Rightarrow>
          (case restaurants db (o_restaurant_id ord) of
             None \<Rightarrow> None
           | Some owner \<Rightarrow>
               if owner = user_id then Some (ord\<lparr>o_status := new_status\<rparr>) else None))"

text \<open>
  \<open>UPDATE orders SET status = $1, driver_id = $2 ... WHERE id = $3 AND (driver_id IS NULL
  OR driver_id = $2) RETURNING ...\<close>. Here too the WHERE clause does not read the status.
\<close>

definition driver_update :: "order_db \<Rightarrow> js_string \<Rightarrow> int \<Rightarrow> int \<Rightarrow> order_row option" where
  "driver_update db new_status orderId user_id =
     (case orders db orderId of
        None \<Rightarrow> None
      | Some ord \<Rightarrow>
          if o_driver_id ord = None \<or> o_driver_id ord = Some user_id then
            Some (ord\<lparr>o_status := new_status, o_driver_id := Some user_id\<rparr>)
          else None)"

text \<open>
  The route from \<open>const result = await query(updateQuery, updateParams)\<close> on:
  \<open>updated\<close> is the row the UPDATE returns, if any.
\<close>

definition apply_update ::
  "orders_env \<Rightarrow> order_db \<Rightarrow> int \<Rightarrow> order_row option \<Rightarrow> http_response \<times> order_db" where
  "apply_update env db orderId updated =
     (let failed = \<lparr>status_code = 500, body = error_body ''Failed to update order status''\<rparr>
      in if \<not> db_up env then (failed, db)
      else (case updated of
          None \<Rightarrow>
            (\<lparr>status_code = 404, body = error_body ''Order not found or access denied''\<rparr>, db)
        | Some updatedOrder \<Rightarrow>
            let db' = db\<lparr>orders := (orders db)(orderId \<mapsto> updatedOrder)\<rparr>
            in if \<not> cache_up env then (failed, db')
               else
                 let db'' = (case cache db' orderId of
                               None \<Rightarrow> db'
                             | Some cachedStatus \<Rightarrow>
                                 db'\<lparr>cache := (cache db')(orderId \<mapsto>
                                        cachedStatus\<lparr>c_status := o_status updatedOrder,
                                                      c_lastUpdated := ord_now_iso env\<rparr>)\<rparr>)
                 in (\<lparr>status_code = 200,
                       body = JObj [(''message'', JStr (js ''Order status updated successfully'')),
                                    (''orderId'', JNum (real_of_int orderId)),
                                    (''status'', JStr (o_status updatedOrder)),
                                    (''updatedAt'', db_updated_at env)]\<rparr>,
                     db'')))"

text \<open>
  The route, after \<open>authenticateToken\<close>; \<open>user_id\<close> and \<open>user_type\<close> are \<open>req.user.id\<close>
  and \<open>req.user.user_type\<close>. It returns the response and the tables and cache after it.
\<close>

definition put_order_status ::
  "orders_env \<Rightarrow> order_db \<Rightarrow> int \<Rightarrow> int \<Rightarrow> string \<Rightarrow> json \<Rightarrow> http_response \<times> order_db" where
  "put_order_status env db orderId user_id user_type req_body =
     (if req_body = JUndefined \<or> req_body = JNull then
        (\<lparr>status_code = 500, body = error_body ''Failed to update order status''\<rparr>, db)
      else
        let status = field req_body ''status''
        in if \<not> js_includes validStatuses status then
             (\<lparr>status_code = 400,
               body = JObj [(''error'', JStr (js ''Invalid status'')),
                            (''validStatuses'', string_list validStatuses)]\<rparr>, db)
           else if user_type = ''restaurant'' then
             if \<not> js_includes [''preparing'', ''ready''] status then
               (\<lparr>status_code = 400,
                 body = error_body ''Restaurants can only set status to preparing or ready''\<rparr>, db)
             else apply_update env db orderId
                    (restaurant_update db (status_text status) orderId user_id)
           else if user_type = ''driver'' then
             if \<not> js_includes [''picked_up'', ''delivered''] status then
               (\<lparr>status_code = 400,
                 body = error_body ''Drivers can only set status to picked_up or delivered''\<rparr>, db)
             else apply_update env db orderId
                    (driver_update db (status_text status) orderId user_id)
           else
             (\<lparr>status_code = 403,
               body = error_body ''Only restaurants and drivers can update order status''\<rparr>, db))"

section \<open>restaurantHandler: update-order-status\<close>

text \<open>\<open>messages[status] || 'Order status updated.'\<close>, for the text of a status of the table.\<close>

definition getStatusMessage :: "js_string \<Rightarrow> json" where
  "getStatusMessage st =
     (if st = js ''confirmed'' then
        JStr (js ''Your order has been confirmed and sent to the restaurant.'')
      else if st = js ''preparing'' then JStr (js ''The restaurant is preparing your order.'')
      else if st = js ''ready'' then
        JStr (js ''Your order is ready for pickup! A driver will collect it soon.'')
      else if st = js ''picked_up'' then
        JStr (js ''Your order has been picked up and is on the way!'')
      else if st = js ''delivered'' then
        JStr (js ''Your order has been delivered. Enjoy your meal!'')
      else if st = js ''cancelled'' then
        JStr (js ''Your order has been cancelled. You will be refunded.'')
      else JStr (js ''Order status updated.''))"

text \<open>The properties the restaurant handler keeps on the socket object.\<close>

record restaurant_socket =
  rsock_id :: socket_id
  restaurantId :: json
  rsock_userId :: "int option"

text \<open>
  The handler of \<open>update-order-status\<close>. The order id of the data is the integer the
  database reads it as. It returns the emissions and the tables after it; it does not
  touch the cache.
\<close>

definition update_order_status ::
  "orders_env \<Rightarrow> order_db \<Rightarrow> rooms \<Rightarrow> restaurant_socket \<Rightarrow> int \<Rightarrow> json
     \<Rightarrow> emission list \<times> order_db" where
  "update_order_status env db rs sock orderId data =
     (let failed = (socket_emit (rsock_id sock) ''error''
                      (error_payload ''Failed to update order status''), db)
      in if data = JUndefined \<or> data = JNull then failed
      else
        let status = field data ''status'';
            estimatedTime = field data ''estimatedTime''
        in (case rsock_userId sock of
              None \<Rightarrow>
                (socket_emit (rsock_id sock) ''error''
                   (error_payload ''Not authenticated or not in restaurant room''), db)
            | Some user_id \<Rightarrow>
                if \<not> truthy (restaurantId sock) then
                  (socket_emit (rsock_id sock) ''error''
                     (error_payload ''Not authenticated or not in restaurant room''), db)
                else if \<not> js_includes [''preparing'', ''ready'', ''cancelled''] status then
                  (socket_emit (rsock_id sock) ''error''
                     (JObj [(''message'', JStr (js ''Invalid status'')),
                            (''validStatuses'', string_list [''preparing'', ''ready'', ''cancelled''])]),
                   db)
                else if \<not> db_up env then failed
                else (case restaurant_update db (status_text status) orderId user_id of
                    None \<Rightarrow>
                      (socket_emit (rsock_id sock) ''error''
                         (error_payload ''Order not found or access denied''), db)
                  | Some ord \<Rightarrow>
                      (io_to_emit rs (Room ''restaurant-'' (restaurantId sock)) ''order-status-updated''
                         (JObj [(''orderId'', JNum (real_of_int orderId)),
                                (''status'', JStr (o_status ord)),
                                (''updatedBy'', JNum (real_of_int user_id)),
                                (''timestamp'', JStr (ord_now_iso env)),
                                (''estimatedTime'', estimatedTime)])
                       @ io_to_emit rs (Room ''customer-'' (JNum (real_of_int (o_customer_id ord))))
                           ''order-status-update''
                           (JObj [(''orderId'', JNum (real_of_int orderId)),
                                  (''status'', JStr (o_status ord)),
                                  (''message'', getStatusMessage (o_status ord)),
                                  (''estimatedTime'', estimatedTime),
                                  (''timestamp'', JStr (ord_now_iso env))])
                       @ socket_emit (rsock_id sock) ''status-update-confirmed''
                           (JObj [(''orderId'', JNum (real_of_int orderId)),
                                  (''status'', status),
                                  (''message'', JStr (js ''Order status updated successfully''))]),
                       db\<lparr>orders := (orders db)(orderId \<mapsto> ord)\<rparr>))))"

subsection \<open>Example: three orders of restaurant 1\<close>

text \<open>
  Restaurant 1 belongs to user 2. Order 1 is confirmed, order 2 is being prepared,
  order 3 is delivered by driver 3. Only order 1 is cached.
\<close>

definition example_orders :: order_db where
  "example_orders =
     \<lparr>orders = Map.empty(
         1 \<mapsto> \<lparr>o_status = js ''confirmed'', o_restaurant_id = 1, o_driver_id = None, o_customer_id = 4\<rparr>,
         2 \<mapsto> \<lparr>o_status = js ''preparing'', o_restaurant_id = 1, o_driver_id = None, o_customer_id = 4\<rparr>,
         3 \<mapsto> \<lparr>o_status = js ''delivered'', o_restaurant_id = 1, o_driver_id = Some 3, o_customer_id = 4\<rparr>),
      restaurants = Map.empty(1 \<mapsto> 2),
      cache = Map.empty(1 \<mapsto> \<lparr>c_status = js ''confirmed'', c_lastUpdated = js ''t0''\<rparr>)\<rparr>"

definition example_orders_env :: orders_env where
  "example_orders_env =
     \<lparr>db_up = True, cache_up = True, ord_now_iso = js ''t1'', db_updated_at = JStr (js ''t1'')\<rparr>"

definition status_request :: "string \<Rightarrow> json" where
  "status_request s = JObj [(''status'', JStr (js s))]"

definition staff_socket :: restaurant_socket where
  "staff_socket = \<lparr>rsock_id = 1, restaurantId = JNum 1, rsock_userId = Some 2\<rparr>"

text \<open>The status an order has in the table, and the status its cache entry has.\<close>

definition stored_status :: "order_db \<Rightarrow> int \<Rightarrow> js_string option" where
  "stored_status db orderId = map_option o_status (orders db orderId)"

definition cached_status_of :: "order_db \<Rightarrow> int \<Rightarrow> js_string option" where
  "cached_status_of db orderId = map_option c_status (cache db orderId)"

definition restaurant_rooms :: rooms where
  "restaurant_rooms =
     (\<lambda>r. if r = Room ''restaurant-'' (JNum 1) then [1, 2]
          else if r = Room ''customer-'' (JNum 4) then [5] else [])"

section \<open>Announcements: publish, subscribe, dispatch\<close>

text \<open>The row of \<open>announcements\<close> that the INSERT of POST /api/announcements returns.\<close>

record announcement =
  a_id :: json
  a_title :: json
  a_message :: json
  a_announcement_type :: json
  a_target_audience :: string
  a_expires_at :: json

text \<open>\<open>priorities[type] || 'low'\<close>, for the announcement types the table admits.\<close>

definition getPriorityLevel :: "json \<Rightarrow> json" where
  "getPriorityLevel ty =
     (if ty = JStr (js ''urgent'') then JStr (js ''high'')
      else if ty = JStr (js ''maintenance'') then JStr (js ''medium'')
      else JStr (js ''low''))"

definition announcementData :: "js_string \<Rightarrow> announcement \<Rightarrow> json" where
  "announcementData now a =
     JObj [(''id'', a_id a),
           (''title'', a_title a),
           (''message'', a_message a),
           (''type'', a_announcement_type a),
           (''targetAudience'', JStr (js (a_target_audience a))),
           (''priority'', getPriorityLevel (a_announcement_type a)),
           (''timestamp'', JStr now),
           (''expiresAt'', a_expires_at a)]"

text \<open>
  \<open>broadcastAnnouncement\<close>: the channels it publishes on, in order, each with the same
  message (when no publish throws).
\<close>

definition broadcastAnnouncement :: "js_string \<Rightarrow> announcement \<Rightarrow> (string \<times> json) list" where
  "broadcastAnnouncement now a =
     (if a_target_audience a = ''all'' then
        [(''announcements-all'', announcementData now a),
         (''announcements-customers'', announcementData now a),
         (''announcements-restaurants'', announcementData now a),
         (''announcements-drivers'', announcementData now a)]
      else [(''announcements-'' @ a_target_audience a, announcementData now a)])"

text \<open>
  The room \<open>`announcements-${userType}`\<close>; the room the code names by the literal
  \<open>'announcements-all'\<close> is the one with \<open>userType = "all"\<close>.
\<close>

definition announcement_room :: "js_string \<Rightarrow> room" where
  "announcement_room ut = Room ''announcements-'' (JStr ut)"

text \<open>
  \<open>durations[type] || 10000\<close>, for a type that is not the name of a member of
  \<open>Object.prototype\<close> (the route and the table admit \<open>general\<close>, \<open>maintenance\<close>,
  \<open>promotion\<close> and \<open>urgent\<close> only), and the two other UI hints of the emitted
  payload.
\<close>

definition getDisplayDuration :: "json \<Rightarrow> json" where
  "getDisplayDuration ty =
     (if ty = JStr (js ''urgent'') then JNum 30000
      else if ty = JStr (js ''maintenance'') then JNum 20000
      else if ty = JStr (js ''promotion'') then JNum 15000
      else JNum 10000)"

definition shouldShowNotification :: "json \<Rightarrow> bool" where
  "shouldShowNotification ty = js_includes [''urgent'', ''maintenance''] ty"

definition new_announcement_payload :: "json \<Rightarrow> json" where
  "new_announcement_payload received =
     JObj [(''id'', field received ''id''),
           (''title'', field received ''title''),
           (''message'', field received ''message''),
           (''type'', field received ''type''),
           (''priority'', field received ''priority''),
           (''timestamp'', field received ''timestamp''),
           (''expiresAt'', field received ''expiresAt''),
           (''displayDuration'', getDisplayDuration (field received ''type'')),
           (''showNotification'', JBool (shouldShowNotification (field received ''type''))),
           (''playSound'', JBool (field received ''type'' = JStr (js ''urgent'')))]"

text \<open>
  \<open>initializeAnnouncementSubscribers\<close>: for each of the four user types the process
  subscribes to the channel \<open>`announcements-${userType}`\<close> with a callback that emits
  \<open>new-announcement\<close> to the room of the same name. \<open>on_message\<close> is what one process
  does with one message that the broker hands it on a channel.
\<close>

definition subscriber_userTypes :: "string list" where
  "subscriber_userTypes = [''all'', ''customers'', ''restaurants'', ''drivers'']"

definition on_message :: "rooms \<Rightarrow> string \<times> json \<Rightarrow> emission list" where
  "on_message rs published =
     concat (map (\<lambda>ut. if ''announcements-'' @ ut = fst published
                         then io_to_emit rs (announcement_room (js ut)) ''new-announcement''
                                (new_announcement_payload (snd published))
                         else [])
                 subscriber_userTypes)"

text \<open>
  One announcement on one process: the broker hands every published message to the
  process once.
\<close>

definition announce :: "rooms \<Rightarrow> js_string \<Rightarrow> announcement \<Rightarrow> emission list" where
  "announce rs now a = concat (map (on_message rs) (broadcastAnnouncement now a))"

text \<open>\<open>socket.join(room)\<close>.\<close>

definition join :: "socket_id \<Rightarrow> room \<Rightarrow> rooms \<Rightarrow> rooms" where
  "join s r rs = rs(r := set_add s (rs r))"

definition validUserTypes :: "string list" where
  "validUserTypes = [''customer'', ''restaurant'', ''driver'', ''support'']"

text \<open>
  The handler of \<open>subscribe-announcements\<close>; \<open>verify\<close> is \<open>verifyTokenAndGetUserId\<close>,
  which gives the user id of a token or \<open>null\<close>. It returns the emissions and the rooms
  after it.
\<close>

definition subscribe_announcements ::
  "(json \<Rightarrow> json) \<Rightarrow> rooms \<Rightarrow> socket_id \<Rightarrow> json \<Rightarrow> emission list \<times> rooms" where
  "subscribe_announcements verify rs s data =
     (if data = JUndefined \<or> data = JNull then
        (socket_emit s ''error'' (error_payload ''Failed to subscribe to announcements''), rs)
      else
        let user_type = field data ''userType'';
            token = field data ''token''
        in if \<not> truthy token then
             (socket_emit s ''error'' (error_payload ''Authentication token required''), rs)
           else if \<not> truthy (verify token) then
             (socket_emit s ''error'' (error_payload ''Invalid authentication token''), rs)
           else if \<not> js_includes validUserTypes user_type then
             (socket_emit s ''error''
                (JObj [(''message'', JStr (js ''Invalid user type'')),
                       (''validTypes'', string_list validUserTypes)]), rs)
           else
             (socket_emit s ''subscribed-announcements''
                (JObj [(''userType'', user_type),
                       (''rooms'', JArr [JStr (js ''announcements-'' @ status_text user_type),
                                         JStr (js ''announcements-all'')]),
                       (''message'', JStr (js ''Subscribed to announcements successfully''))]),
              join s (announcement_room (js ''all''))
                (join s (announcement_room (status_text user_type)) rs)))"

subsection \<open>Example: a customer subscribes, then announcements are made\<close>

definition no_rooms :: rooms where
  "no_rooms = (\<lambda>r. [])"

definition example_verify :: "json \<Rightarrow> json" where
  "example_verify token = (if token = JStr (js ''tok'') then JNum 4 else JNull)"

definition customer_subscription :: json where
  "customer_subscription = JObj [(''userType'', JStr (js ''customer'')), (''token'', JStr (js ''tok''))]"

definition rooms_after_subscription :: rooms where
  "rooms_after_subscription = snd (subscribe_announcements example_verify no_rooms 1 customer_subscription)"

definition example_announcement :: "string \<Rightarrow> announcement" where
  "example_announcement audience =
     \<lparr>a_id = JNum 1, a_title = JStr (js ''Sale''), a_message = JStr (js ''Today''),
      a_announcement_type = JStr (js ''promotion''), a_target_audience = audience,
      a_expires_at = JNull\<rparr>"

section \<open>The long poll on the wall clock\<close>

text \<open>
  \<open>pollForChanges\<close> above counts time in sleeps. The handler reads \<open>Date.now()\<close>, and
  between two readings it awaits a query, which takes time, and a timer, which may fire
  late. A \<open>clock\<close> says how long the query issued at a given time takes and how much
  later than asked the timer started at a given time fires, both in milliseconds.
\<close>

record clock =
  query_ms :: "int \<Rightarrow> nat"
  timer_late_ms :: "int \<Rightarrow> nat"

text \<open>The answer after the loop: the last query is issued at \<open>now\<close> and takes its time.\<close>

definition final_status_timed ::
  "clock \<Rightarrow> (int \<Rightarrow> upload_row query_result) \<Rightarrow> int \<Rightarrow> int \<times> poll_result" where
  "final_status_timed ck db now = (now + int (query_ms ck now), snd (final_status db now))"

text \<open>
  \<open>pollForChanges\<close> on the wall clock. \<open>now\<close> is \<open>Date.now() - startTime\<close> at the
  test of the \<open>while\<close>; \<open>db t\<close> is what the query issued at \<open>t\<close> gives. The result
  is the time of the answer and the answer.
\<close>

function pollForChanges_timed ::
  "clock \<Rightarrow> (int \<Rightarrow> upload_row query_result) \<Rightarrow> upload_row \<Rightarrow> int \<Rightarrow> int
     \<Rightarrow> int \<times> poll_result" where
  "pollForChanges_timed ck db upload pollTimeout now =
     (if now < pollTimeout then
        (case db now of
           QueryError \<Rightarrow> (now + int (query_ms ck now), Failure 500 ''Failed to get upload status'')
         | NoRow \<Rightarrow> final_status_timed ck db (now + int (query_ms ck now))
         | Row current \<Rightarrow>
             if terminal (u_status current) then
               (now + int (query_ms ck now),
                Status \<lparr>s_status = u_status current, s_progress = u_progress current,
                        s_errorMessage = u_error_message current,
                        s_lastUpdated = u_updated_at current,
                        s_completed = True, s_timeout = False, s_polling = None\<rparr>)
             else if \<bar>u_progress current - u_progress upload\<bar> \<ge> 5 then
               (now + int (query_ms ck now),
                Status \<lparr>s_status = u_status current, s_progress = u_progress current,
                        s_errorMessage = u_error_message current,
                        s_lastUpdated = u_updated_at current,
                        s_completed = False, s_timeout = False,
                        s_polling = Some (True, 2000)\<rparr>)
             else pollForChanges_timed ck db upload pollTimeout
                    (now + int (query_ms ck now) + pollInterval
                       + int (timer_late_ms ck (now + int (query_ms ck now)))))
      else final_status_timed ck db now)"
  by pat_completeness auto
termination
  by (relation "measure (\<lambda>(ck, db, upload, pollTimeout, now). nat (pollTimeout - now))")
     (auto simp: pollInterval_def)

text \<open>The handler on the wall clock; time 0 is \<open>startTime\<close>.\<close>

definition get_status_timed ::
  "clock \<Rightarrow> int option \<Rightarrow> upload_row query_result \<Rightarrow> (int \<Rightarrow> upload_row query_result)
     \<Rightarrow> int \<times> poll_result" where
  "get_status_timed ck parsed uploadCheck db =
     (case uploadCheck of
        QueryError \<Rightarrow> (0, Failure 500 ''Failed to get upload status'')
      | NoRow \<Rightarrow> (0, Failure 404 ''Upload not found or access denied'')
      | Row upload \<Rightarrow>
          if terminal (u_status upload) then
            (0, Status \<lparr>s_status = u_status upload, s_progress = u_progress upload,
                        s_errorMessage = u_error_message upload,
                        s_lastUpdated = u_updated_at upload,
                        s_completed = True, s_timeout = False, s_polling = None\<rparr>)
          else pollForChanges_timed ck db upload (pollTimeout_of parsed) 0)"

text \<open>Queries that take no time and timers that fire on time; queries of 50 ms and of 5 ms.\<close>

definition instant_clock :: clock where
  "instant_clock = \<lparr>query_ms = (\<lambda>t. 0), timer_late_ms = (\<lambda>t. 0)\<rparr>"

definition clock_50ms :: clock where
  "clock_50ms = \<lparr>query_ms = (\<lambda>t. 50), timer_late_ms = (\<lambda>t. 0)\<rparr>"

definition clock_5ms :: clock where
  "clock_5ms = \<lparr>query_ms = (\<lambda>t. 5), timer_late_ms = (\<lambda>t. 0)\<rparr>"

section \<open>GET /api/driver/location/:orderId/stream\<close>

text \<open>
  The frame the stream sends for the location found in the cache when it opens: its
  fields are read from the cached object.
\<close>

definition cached_location_frame :: "json \<Rightarrow> json \<Rightarrow> json" where
  "cached_location_frame currentLocation orderId =
     JObj [(''type'', JStr (js ''location_update'')),
           (''data'', JObj [(''latitude'', field currentLocation ''latitude''),
                            (''longitude'', field currentLocation ''longitude''),
                            (''timestamp'', field currentLocation ''timestamp''),
                            (''orderId'', orderId)])]"

text \<open>
  What the handler reads from outside: the SELECT on \<open>orders\<close> (\<open>None\<close> when it throws,
  otherwise whether it found the row) and \<open>get(`driver_location:${orderId}`)\<close>
  (\<open>None\<close> when it throws, otherwise the cached value or \<open>null\<close>).
\<close>

record stream_env =
  stream_order_check :: "bool option"
  cached_location :: "json option"

text \<open>
  How opening ends: the stream is open; the request is refused with a JSON answer; or
  something threw after the head of the response was sent, when the \<open>catch\<close> can no
  longer answer.
\<close>

datatype stream_outcome = StreamOpen | StreamRefused http_response | StreamBroken

text \<open>
  The handler up to the registration of the response, after \<open>authenticateToken\<close> and
  \<open>authorize(['customer'])\<close>. It returns how it ended, the frames it wrote, and the
  registry. The heartbeat timer it starts is \<open>heartbeat_tick\<close>, its close handler
  \<open>on_close\<close>.
\<close>

definition open_stream ::
  "stream_env \<Rightarrow> (handle \<Rightarrow> bool) \<Rightarrow> handle \<Rightarrow> json \<Rightarrow> registry
     \<Rightarrow> stream_outcome \<times> (handle \<times> json) list \<times> registry" where
  "open_stream env writable res orderId sseConnections =
     (case stream_order_check env of
        None \<Rightarrow>
          (StreamRefused \<lparr>status_code = 500,
                          body = error_body ''Failed to establish location stream''\<rparr>,
           [], sseConnections)
      | Some False \<Rightarrow>
          (StreamRefused \<lparr>status_code = 403,
                          body = error_body ''Order not found, not yours, or not in delivery phase''\<rparr>,
           [], sseConnections)
      | Some True \<Rightarrow>
          if \<not> writable res then (StreamBroken, [], sseConnections)
          else (case cached_location env of
              None \<Rightarrow> (StreamBroken, [(res, connection_established_frame orderId)], sseConnections)
            | Some currentLocation \<Rightarrow>
                (StreamOpen,
                 (if truthy currentLocation
                  then [(res, connection_established_frame orderId),
                        (res, cached_location_frame currentLocation orderId)]
                  else [(res, connection_established_frame orderId)]),
                 sse_open res orderId sseConnections)))"

text \<open>The frames among the effects of a request, in the order they were pushed.\<close>

fun pushed_frames :: "effect list \<Rightarrow> json list" where
  "pushed_frames [] = []"
| "pushed_frames (SseWrite h f # es) = f # pushed_frames es"
| "pushed_frames (e # es) = pushed_frames es"

text \<open>
  The shape the frames have: an object whose top-level fields are \<open>type\<close>, a string,
  and \<open>data\<close>, an object, and nothing else.
\<close>

fun is_js_string :: "json \<Rightarrow> bool" where
  "is_js_string (JStr s) = True"
| "is_js_string v = False"

fun is_js_object :: "json \<Rightarrow> bool" where
  "is_js_object (JObj kvs) = True"
| "is_js_object v = False"

definition frame_shape :: "json \<Rightarrow> bool" where
  "frame_shape f =
     (top_level_fields f = [''type'', ''data''] \<and> is_js_string (field f ''type'')
      \<and> is_js_object (field f ''data''))"

definition example_stream_env :: stream_env where
  "example_stream_env =
     \<lparr>stream_order_check = Some True,
      cached_location = Some (JObj [(''latitude'', JNum 40), (''longitude'', JNum (- 74)),
                                    (''timestamp'', JStr (js ''t''))])\<rparr>"

definition nonzero_body :: json where
  "nonzero_body = JObj [(''orderId'', JNum 12), (''latitude'', JNum 40), (''longitude'', JNum (- 74))]"

definition all_alive :: "handle \<Rightarrow> bool" where
  "all_alive h = True"

section \<open>Properties of send-message\<close>

lemma length_trim_le: "length (trim s) \<le> length s"
  unfolding trim_def
  by (metis length_rev length_dropWhile_le order_trans)

lemma trim_bound: "\<not> 1000 < length s \<Longrightarrow> length (trim s) \<le> 1000"
  using length_trim_le [of s] by simp

lemma trim_nonempty: "trim s \<noteq> [] \<Longrightarrow> Suc 0 \<le> length (trim s)"
  by (cases "trim s") simp_all

text \<open>
  Either the handler stored and broadcast nothing, or the message is a string that
  passed both checks and what it stored and broadcast is the trimmed string.
\<close>

lemma send_message_cases:
  "(fst (send_message env rs sock data) = []
      \<and> filter (\<lambda>e. em_event e = ''new-message'') (snd (send_message env rs sock data)) = []
      \<and> (\<forall>s. field data ''message'' = JStr s \<and> (length (trim s) = 0 \<or> length s > 1000) \<longrightarrow>
             map em_to (filter (\<lambda>e. em_event e = ''error'') (snd (send_message env rs sock data)))
               = [sock_id sock]))
   \<or> (\<exists>s. field data ''message'' = JStr s \<and> trim s \<noteq> [] \<and> \<not> 1000 < length s
         \<and> map row_message (fst (send_message env rs sock data)) = [trim s]
         \<and> (\<forall>e \<in> set (snd (send_message env rs sock data)).
               em_event e = ''new-message'' \<longrightarrow> field (em_payload e) ''message'' = JStr (trim s)))"
proof (cases "field data ''message''")
  case (JStr s)
  then show ?thesis
    by (auto simp: send_message_def Let_def socket_emit_def io_to_emit_def messageData_def
        split: option.splits)
qed (simp_all add: send_message_def Let_def socket_emit_def)

text \<open>
  C10. Every text that send-message stores, and every text it broadcasts as
  \<open>new-message\<close>, is the trimmed input string and has between 1 and 1000 code units.
  An input string that is blank after trimming, or longer than 1000 code units, stores
  nothing, broadcasts nothing, and gets exactly one \<open>error\<close> event, sent to the sender.
\<close>

theorem send_message_text_bounds:
  "(\<forall>t \<in> set (stored_texts (send_message env rs sock data)).
      \<exists>s. field data ''message'' = JStr s \<and> t = trim s \<and> 1 \<le> length t \<and> length t \<le> 1000)
   \<and> (\<forall>p \<in> set (broadcast_texts (send_message env rs sock data)).
      \<exists>s. field data ''message'' = JStr s \<and> p = JStr (trim s)
          \<and> 1 \<le> length (trim s) \<and> length (trim s) \<le> 1000)
   \<and> (\<forall>s. field data ''message'' = JStr s \<and> (length (trim s) = 0 \<or> length s > 1000) \<longrightarrow>
         fst (send_message env rs sock data) = []
         \<and> broadcast_texts (send_message env rs sock data) = []
         \<and> map em_to (error_emissions (send_message env rs sock data)) = [sock_id sock])"
  using send_message_cases [of env rs sock data]
  unfolding stored_texts_def broadcast_texts_def error_emissions_def
  by (elim disjE exE conjE) (auto simp: trim_bound trim_nonempty)

text \<open>
  The text \<open>" hi "\<close> is stored and broadcast to the three members as \<open>"hi"\<close>; the
  blank text \<open>"   "\<close> is refused with one error to socket 1.
\<close>

theorem send_message_text_bounds_witness:
  "stored_texts (send_message example_chat_env three_members example_sender padded_hi) = [js ''hi'']
   \<and> broadcast_texts (send_message example_chat_env three_members example_sender padded_hi)
       = [JStr (js ''hi''), JStr (js ''hi''), JStr (js ''hi'')]
   \<and> length (js ''hi'') = 2
   \<and> field blank_message ''message'' = JStr (js ''   '') \<and> length (trim (js ''   '')) = 0
   \<and> fst (send_message example_chat_env three_members example_sender blank_message) = []
   \<and> broadcast_texts (send_message example_chat_env three_members example_sender blank_message) = []
   \<and> map em_to (error_emissions (send_message example_chat_env three_members example_sender blank_message))
       = [1]"
  using send_message_text_bounds [of example_chat_env three_members example_sender padded_hi]
    send_message_text_bounds [of example_chat_env three_members example_sender blank_message]
  by (simp add: send_message_def example_chat_env_def example_sender_def three_members_def
      padded_hi_def blank_message_def stored_texts_def broadcast_texts_def error_emissions_def
      js_def trim_def is_white_space_def Let_def io_to_emit_def socket_emit_def messageData_def)

lemma accepted_run:
  assumes "accepted env sock data"
  shows "\<exists>new_id created_at s mt.
           snd (send_message env rs sock data) =
             io_to_emit rs (Room ''chat-'' (chatId sock)) ''new-message''
               (messageData env sock new_id created_at (trim s) mt)
             @ socket_emit (sock_id sock) ''message-sent''
                 (message_sent_payload env (field data ''tempId'') new_id)"
proof -
  from assms obtain s where s: "field data ''message'' = JStr s" "trim s \<noteq> []" "length s \<le> 1000"
    by (auto simp: accepted_def split: json.splits)
  from assms obtain i c where ic: "insert_returning env = Some (i, c)"
    by (auto simp: accepted_def)
  from s(2) have "s \<noteq> []" by (auto simp: trim_def)
  with assms s ic show ?thesis
    by (simp add: accepted_def send_message_def Let_def) blast
qed

lemma count_member_once:
  "distinct xs \<Longrightarrow> m \<in> set xs \<Longrightarrow> length (filter (\<lambda>x. x = m) xs) = Suc 0"
  by (induction xs) (auto simp: filter_empty_conv)

lemma count_nonmember: "m \<notin> set xs \<Longrightarrow> filter (\<lambda>x. x = m) xs = []"
  by (auto simp: filter_empty_conv)

lemma deliveries_io_to_emit:
  "deliveries ev m (io_to_emit rs r ev' p) =
     (if ev = ev' then length (filter (\<lambda>x. x = m) (rs r)) else 0)"
  by (simp add: deliveries_def io_to_emit_def filter_map o_def)

lemma deliveries_socket_emit:
  "deliveries ev m (socket_emit s ev' p) = (if ev = ev' \<and> m = s then 1 else 0)"
  by (auto simp: deliveries_def socket_emit_def)

lemma deliveries_append: "deliveries ev m (xs @ ys) = deliveries ev m xs + deliveries ev m ys"
  by (simp add: deliveries_def)

text \<open>
  C3 (amended). send-message uses \<open>io.to(room)\<close>, not \<open>socket.to(room)\<close>: in a room
  of 10 members that holds the sender, every member, the sender included, gets the
  \<open>new-message\<close> payload exactly once (10 deliveries), and the sender gets in addition
  exactly one \<open>message-sent\<close> acknowledgment, which nobody else gets.
\<close>

theorem send_message_reaches_all_members:
  assumes "accepted env sock data"
    and "distinct (rs (Room ''chat-'' (chatId sock)))"
    and "sock_id sock \<in> set (rs (Room ''chat-'' (chatId sock)))"
    and "length (rs (Room ''chat-'' (chatId sock))) = 10"
  shows "(\<forall>m \<in> set (rs (Room ''chat-'' (chatId sock))).
            deliveries ''new-message'' m (snd (send_message env rs sock data)) = 1)
       \<and> deliveries ''new-message'' (sock_id sock) (snd (send_message env rs sock data)) = 1
       \<and> length (filter (\<lambda>e. em_event e = ''new-message'') (snd (send_message env rs sock data))) = 10
       \<and> deliveries ''message-sent'' (sock_id sock) (snd (send_message env rs sock data)) = 1
       \<and> (\<forall>m. m \<noteq> sock_id sock \<longrightarrow>
             deliveries ''message-sent'' m (snd (send_message env rs sock data)) = 0)"
proof -
  from accepted_run [OF assms(1), of rs] obtain new_id created_at s mt where
    run: "snd (send_message env rs sock data) =
             io_to_emit rs (Room ''chat-'' (chatId sock)) ''new-message''
               (messageData env sock new_id created_at (trim s) mt)
             @ socket_emit (sock_id sock) ''message-sent''
                 (message_sent_payload env (field data ''tempId'') new_id)"
    by blast
  have a: "\<forall>m \<in> set (rs (Room ''chat-'' (chatId sock))).
            deliveries ''new-message'' m (snd (send_message env rs sock data)) = 1"
    using assms(2)
    by (simp add: run deliveries_append deliveries_io_to_emit deliveries_socket_emit count_member_once)
  have b: "length (filter (\<lambda>e. em_event e = ''new-message'') (snd (send_message env rs sock data))) = 10"
    using assms(4) by (simp add: run io_to_emit_def socket_emit_def filter_map o_def)
  have c: "deliveries ''message-sent'' (sock_id sock) (snd (send_message env rs sock data)) = 1"
    by (simp add: run deliveries_append deliveries_io_to_emit deliveries_socket_emit)
  have d: "\<forall>m. m \<noteq> sock_id sock \<longrightarrow>
             deliveries ''message-sent'' m (snd (send_message env rs sock data)) = 0"
    by (simp add: run deliveries_append deliveries_io_to_emit deliveries_socket_emit)
  from a assms(3) b c d show ?thesis by blast
qed

lemma example_accepted: "accepted example_chat_env example_sender padded_hi"
  by (simp add: accepted_def example_chat_env_def example_sender_def padded_hi_def js_def trim_def
      is_white_space_def)

theorem send_message_reaches_all_members_witness:
  "accepted example_chat_env example_sender padded_hi
   \<and> distinct (ten_members (Room ''chat-'' (chatId example_sender)))
   \<and> sock_id example_sender \<in> set (ten_members (Room ''chat-'' (chatId example_sender)))
   \<and> length (ten_members (Room ''chat-'' (chatId example_sender))) = 10
   \<and> deliveries ''new-message'' 1 (snd (send_message example_chat_env ten_members example_sender padded_hi)) = 1
   \<and> deliveries ''message-sent'' 1 (snd (send_message example_chat_env ten_members example_sender padded_hi)) = 1"
proof -
  have h1: "accepted example_chat_env example_sender padded_hi" by (rule example_accepted)
  have h2: "distinct (ten_members (Room ''chat-'' (chatId example_sender)))"
    by (simp add: ten_members_def example_sender_def)
  have h3: "sock_id example_sender \<in> set (ten_members (Room ''chat-'' (chatId example_sender)))"
    by (simp add: ten_members_def example_sender_def)
  have h4: "length (ten_members (Room ''chat-'' (chatId example_sender))) = 10"
    by (simp add: ten_members_def example_sender_def)
  have s1: "sock_id example_sender = 1" by (simp add: example_sender_def)
  from send_message_reaches_all_members
    [where env = example_chat_env and sock = example_sender and data = padded_hi
       and rs = ten_members, OF h1 h2 h3 h4] h1 h2 h3 h4 s1
  show ?thesis by simp
qed

text \<open>
  The claim as written fails: in a room of 10 the sender (socket 1) does get the echo,
  and the payload is delivered 10 times, not 9.
\<close>

theorem send_message_echo_counterexample:
  "length (ten_members (Room ''chat-'' (chatId example_sender))) = 10
   \<and> deliveries ''new-message'' (sock_id example_sender)
        (snd (send_message example_chat_env ten_members example_sender padded_hi)) = 1
   \<and> length (broadcast_texts
        (send_message example_chat_env ten_members example_sender padded_hi)) = 10"
  by (simp add: send_message_def example_chat_env_def example_sender_def ten_members_def
      padded_hi_def deliveries_def broadcast_texts_def js_def trim_def is_white_space_def
      Let_def io_to_emit_def socket_emit_def)

text \<open>
  \<open>socket.to(room)\<close>, which the typing and presence events use, is the form that
  leaves the sender out; send-message does not use it.
\<close>

lemma socket_to_emit_skips_sender: "deliveries ev s (socket_to_emit rs s r ev' p) = 0"
  by (simp add: deliveries_def socket_to_emit_def filter_map o_def)

section \<open>Properties of the streaming registry\<close>

lemma push_loop_result:
  "push_loop writable frame visit connections written =
     (filter (\<lambda>c. c \<notin> set visit \<or> writable c) connections,
      written @ map (\<lambda>h. (h, frame)) (filter writable visit))"
proof (induction visit arbitrary: connections written)
  case Nil
  then show ?case by simp
next
  case (Cons res rest)
  show ?case
  proof (cases "writable res")
    case True
    then show ?thesis
      by (auto simp: Cons.IH intro: filter_cong)
  next
    case False
    then show ?thesis
      by (auto simp: Cons.IH set_delete_def intro: filter_cong)
  qed
qed

lemma sse_push_result:
  assumes "sseConnections orderId = Some connections"
  shows "sse_push writable frame orderId sseConnections =
           (sseConnections(orderId \<mapsto> filter writable connections),
            map (\<lambda>h. (h, frame)) (filter writable connections))"
proof (cases connections)
  case Nil
  with assms show ?thesis by (auto simp: sse_push_def)
next
  case (Cons a list)
  have "filter (\<lambda>c. c \<notin> set connections \<or> writable c) connections = filter writable connections"
    by (rule filter_cong) auto
  with assms Cons show ?thesis
    by (simp add: sse_push_def push_loop_result del: push_loop.simps)
qed

lemma length_remove_one:
  "distinct xs \<Longrightarrow> d \<in> set xs \<Longrightarrow> length (filter (\<lambda>x. x \<noteq> d) xs) + 1 = length xs"
proof (induction xs)
  case Nil
  then show ?case by simp
next
  case (Cons a xs)
  show ?case
  proof (cases "a = d")
    case True
    with Cons.prems have "d \<notin> set xs" by simp
    then have "filter (\<lambda>x. x \<noteq> d) xs = xs" by (auto intro: filter_True)
    with True show ?thesis by simp
  next
    case False
    with Cons show ?thesis by simp
  qed
qed

text \<open>
  C5. A push to an order whose Set holds a response that fails its write, all others
  being writable: every other response gets the frame, once and in order, the failed
  one gets nothing and leaves the Set, which shrinks by exactly one; no other entry of
  the registry changes.
\<close>

theorem sse_push_drops_only_failed:
  assumes "sseConnections orderId = Some connections"
    and "distinct connections"
    and "dead \<in> set connections"
    and "\<not> writable dead"
    and "\<forall>h \<in> set connections. h \<noteq> dead \<longrightarrow> writable h"
  shows "map fst (snd (sse_push writable frame orderId sseConnections))
           = filter (\<lambda>h. h \<noteq> dead) connections
       \<and> (\<forall>w \<in> set (snd (sse_push writable frame orderId sseConnections)). snd w = frame)
       \<and> fst (sse_push writable frame orderId sseConnections) orderId
           = Some (set_delete dead connections)
       \<and> length (set_delete dead connections) + 1 = length connections
       \<and> (\<forall>k. k \<noteq> orderId \<longrightarrow>
             fst (sse_push writable frame orderId sseConnections) k = sseConnections k)"
proof -
  have alive: "filter writable connections = filter (\<lambda>h. h \<noteq> dead) connections"
    using assms(4,5) by (intro filter_cong) auto
  have len: "length (set_delete dead connections) + 1 = length connections"
    unfolding set_delete_def using assms(2,3) by (rule length_remove_one)
  show ?thesis
    using len
      sse_push_result [where sseConnections = sseConnections and orderId = orderId
        and connections = connections and writable = writable and frame = frame, OF assms(1)]
    by (simp add: alive set_delete_def o_def)
qed

text \<open>Three streams on order 12, the second one dead: 1 and 3 get the frame and remain.\<close>

theorem sse_push_drops_only_failed_witness:
  "three_streams (JNum 12) = Some [1, 2, 3] \<and> distinct [1, 2, 3 :: handle]
   \<and> (2 :: handle) \<in> set [1, 2, 3] \<and> \<not> second_is_dead 2
   \<and> second_is_dead 1 \<and> second_is_dead 3
   \<and> map fst (snd (sse_push second_is_dead example_frame (JNum 12) three_streams)) = [1, 3]
   \<and> fst (sse_push second_is_dead example_frame (JNum 12) three_streams) (JNum 12) = Some [1, 3]"
proof -
  have h1: "three_streams (JNum 12) = Some [1, 2, 3]" by (simp add: three_streams_def)
  have h2: "distinct [1, 2, 3 :: handle]" by simp
  have h3: "(2 :: handle) \<in> set [1, 2, 3]" by simp
  have h4: "\<not> second_is_dead 2" by (simp add: second_is_dead_def)
  have h5: "\<forall>h \<in> set [1, 2, 3 :: handle]. h \<noteq> 2 \<longrightarrow> second_is_dead h"
    by (simp add: second_is_dead_def)
  from sse_push_drops_only_failed
    [where sseConnections = three_streams and orderId = "JNum 12" and connections = "[1, 2, 3]"
       and dead = 2 and writable = second_is_dead and frame = example_frame,
     OF h1 h2 h3 h4 h5] h1 h4
  show ?thesis by (simp add: set_delete_def second_is_dead_def)
qed

text \<open>
  C6 (the code departs from the claim). When the only stream of an order fails its
  write, in the push or in the heartbeat, the response leaves the Set but the entry
  stays in the Map with an empty Set; only the \<open>close\<close> handler deletes the entry.
\<close>

theorem empty_set_left_behind:
  "fst (sse_push all_dead example_frame (JNum 12) one_stream) (JNum 12) = Some []
   \<and> fst (heartbeat_tick all_dead (js ''t'') 1 (JNum 12) one_stream) (JNum 12) = Some []
   \<and> on_close 1 (JNum 12) one_stream (JNum 12) = None"
  by (simp add: sse_push_def heartbeat_tick_def on_close_def one_stream_def all_dead_def
      set_delete_def)

text \<open>
  Opening a stream and closing one never leave an order with an empty Set: the empty
  Sets come from the two failure paths alone.
\<close>

lemma sse_open_no_empty_entry: "sse_open res orderId sseConnections orderId \<noteq> Some []"
  by (auto simp: sse_open_def set_add_def split: option.splits)

lemma on_close_no_empty_entry: "on_close res orderId sseConnections orderId \<noteq> Some []"
  by (simp add: on_close_def split: option.splits)

text \<open>The three frame literals of the push, the heartbeat and the opening of a stream.\<close>

lemma frame_literals:
  "top_level_fields (location_frame lat lng ts orderId) = [''type'', ''data'']
   \<and> field (location_frame lat lng ts orderId) ''type'' = JStr (js ''location_update'')
   \<and> field (field (location_frame lat lng ts orderId) ''data'') ''timestamp'' = JStr ts
   \<and> field (location_frame lat lng ts orderId) ''timestamp'' = JUndefined
   \<and> top_level_fields (heartbeat_frame ts) = [''type'', ''data'']
   \<and> field (heartbeat_frame ts) ''type'' = JStr (js ''heartbeat'')
   \<and> field (heartbeat_frame ts) ''data'' = JObj [(''timestamp'', JStr ts)]
   \<and> field (heartbeat_frame ts) ''timestamp'' = JUndefined
   \<and> top_level_fields (connection_established_frame orderId) = [''type'', ''data'']"
  by (simp add: location_frame_def heartbeat_frame_def connection_established_frame_def)

lemma cached_frame_literal:
  "top_level_fields (cached_location_frame currentLocation orderId) = [''type'', ''data'']
   \<and> field (cached_location_frame currentLocation orderId) ''type'' = JStr (js ''location_update'')
   \<and> field (cached_location_frame currentLocation orderId) ''timestamp'' = JUndefined"
  by (simp add: cached_location_frame_def)

lemma connection_frame_literal:
  "field (connection_established_frame orderId) ''type'' = JStr (js ''connection_established'')
   \<and> field (connection_established_frame orderId) ''timestamp'' = JUndefined"
  by (simp add: connection_established_frame_def)

lemma frame_shapes:
  "frame_shape (location_frame lat lng ts orderId)"
  "frame_shape (heartbeat_frame ts)"
  "frame_shape (connection_established_frame orderId)"
  "frame_shape (cached_location_frame currentLocation orderId)"
  by (simp_all add: frame_shape_def location_frame_def heartbeat_frame_def
      connection_established_frame_def cached_location_frame_def)

lemma sse_push_writes_frame:
  "w \<in> set (snd (sse_push writable frame orderId sseConnections)) \<Longrightarrow> snd w = frame"
proof (cases "sseConnections orderId")
  case None
  then show "w \<in> set (snd (sse_push writable frame orderId sseConnections)) \<Longrightarrow> snd w = frame"
    by (simp add: sse_push_def)
next
  case (Some connections)
  assume "w \<in> set (snd (sse_push writable frame orderId sseConnections))"
  with sse_push_result [where sseConnections = sseConnections and orderId = orderId
      and connections = connections and writable = writable and frame = frame, OF Some]
  show "snd w = frame" by auto
qed

lemma pushed_frames_writes:
  "pushed_frames (map (\<lambda>(h, f). SseWrite h f) written) = map snd written"
  by (induction written) auto

lemma pushed_frames_append: "pushed_frames (es @ es') = pushed_frames es @ pushed_frames es'"
  by (induction es rule: pushed_frames.induct) simp_all

text \<open>The only frame PUT /api/driver/location pushes is the location update of the request.\<close>

lemma put_location_pushes:
  assumes "f \<in> set (pushed_frames (fst (snd (put_location env driverId req_body sseConnections))))"
  shows "f = location_frame (parseFloat env (field req_body ''latitude''))
               (parseFloat env (field req_body ''longitude'')) (loc_now_iso env)
               (field req_body ''orderId'')"
proof -
  let ?frame = "location_frame (parseFloat env (field req_body ''latitude''))
                  (parseFloat env (field req_body ''longitude'')) (loc_now_iso env)
                  (field req_body ''orderId'')"
  let ?push = "sse_push (write_ok env) ?frame (field req_body ''orderId'') sseConnections"
  have "set (pushed_frames (fst (snd (put_location env driverId req_body sseConnections))))
          \<subseteq> snd ` set (snd ?push)"
    by (auto simp: put_location_def Let_def pushed_frames_append pushed_frames_writes
        split: option.splits prod.splits)
  with assms obtain w where "w \<in> set (snd ?push)" "f = snd w" by auto
  then show ?thesis using sse_push_writes_frame [of w "write_ok env" ?frame] by simp
qed

text \<open>
  C7 (amended). Every frame that a handler writes to a streaming consumer (the frames
  pushed by PUT /api/driver/location, the heartbeat of a stream, and the two frames
  written when a stream opens) is an object with exactly the two top-level fields
  \<open>type\<close>, a string, and \<open>data\<close>, an object. It has no top-level \<open>timestamp\<close>:
  the ISO timestamp of a pushed location update and of a heartbeat is a field of
  \<open>data\<close>. A heartbeat has \<open>type = "heartbeat"\<close> and its \<open>data\<close> holds the
  timestamp and nothing else. The push loop writes the frame it is given, unchanged.
\<close>

theorem frames_written_have_type_and_data:
  "(\<forall>f \<in> set (pushed_frames (fst (snd (put_location env driverId req_body sseConnections)))).
      frame_shape f \<and> field f ''type'' = JStr (js ''location_update'')
      \<and> field f ''timestamp'' = JUndefined
      \<and> field (field f ''data'') ''timestamp'' = JStr (loc_now_iso env))
   \<and> (\<forall>w \<in> set (snd (sse_push writable frame orderId sseConnections)). snd w = frame)
   \<and> (\<forall>w \<in> set (fst (snd (heartbeat_tick writable ts res orderId sseConnections))).
      frame_shape (snd w) \<and> field (snd w) ''type'' = JStr (js ''heartbeat'')
      \<and> field (snd w) ''timestamp'' = JUndefined
      \<and> field (snd w) ''data'' = JObj [(''timestamp'', JStr ts)])
   \<and> (\<forall>w \<in> set (fst (snd (open_stream senv writable res orderId sseConnections))).
      frame_shape (snd w) \<and> field (snd w) ''timestamp'' = JUndefined
      \<and> (field (snd w) ''type'' = JStr (js ''connection_established'')
          \<or> field (snd w) ''type'' = JStr (js ''location_update'')))"
proof -
  have a: "\<forall>f \<in> set (pushed_frames (fst (snd (put_location env driverId req_body sseConnections)))).
      frame_shape f \<and> field f ''type'' = JStr (js ''location_update'')
      \<and> field f ''timestamp'' = JUndefined
      \<and> field (field f ''data'') ''timestamp'' = JStr (loc_now_iso env)"
  proof
    fix f
    assume "f \<in> set (pushed_frames (fst (snd (put_location env driverId req_body sseConnections))))"
    then have "f = location_frame (parseFloat env (field req_body ''latitude''))
               (parseFloat env (field req_body ''longitude'')) (loc_now_iso env)
               (field req_body ''orderId'')"
      by (rule put_location_pushes)
    then show "frame_shape f \<and> field f ''type'' = JStr (js ''location_update'')
      \<and> field f ''timestamp'' = JUndefined
      \<and> field (field f ''data'') ''timestamp'' = JStr (loc_now_iso env)"
      using frame_literals by (simp add: frame_shapes)
  qed
  have b: "\<forall>w \<in> set (snd (sse_push writable frame orderId sseConnections)). snd w = frame"
    using sse_push_writes_frame by blast
  have c: "\<forall>w \<in> set (fst (snd (heartbeat_tick writable ts res orderId sseConnections))).
      frame_shape (snd w) \<and> field (snd w) ''type'' = JStr (js ''heartbeat'')
      \<and> field (snd w) ''timestamp'' = JUndefined
      \<and> field (snd w) ''data'' = JObj [(''timestamp'', JStr ts)]"
    using frame_literals [of _ _ ts]
    by (auto simp: heartbeat_tick_def frame_shapes split: option.splits)
  have d: "\<forall>w \<in> set (fst (snd (open_stream senv writable res orderId sseConnections))).
      frame_shape (snd w) \<and> field (snd w) ''timestamp'' = JUndefined
      \<and> (field (snd w) ''type'' = JStr (js ''connection_established'')
          \<or> field (snd w) ''type'' = JStr (js ''location_update''))"
    by (auto simp: open_stream_def frame_shapes cached_frame_literal connection_frame_literal
        split: option.splits bool.splits)
  from a b c d show ?thesis by blast
qed

text \<open>A request with coordinates that are not 0 goes through and leaves all three effects.\<close>

lemma put_location_example:
  "put_location example_location_env (JNum 4) nonzero_body three_streams
   = (\<lparr>status_code = 200,
        body = JObj [(''message'', JStr (js ''Location updated successfully'')),
                     (''timestamp'', JStr (js ''t''))]\<rparr>,
      [DbUpsertLocation (JNum 4) (JNum 12) (JNum 40) (JNum (- 74)),
       CacheSet (Key ''driver_location:'' (JNum 12))
         (locationData example_location_env (JNum 4) (JNum 12) (JNum 40) (JNum (- 74)) (JNum 3)) 300,
       SseWrite 1 example_frame, SseWrite 2 example_frame, SseWrite 3 example_frame],
      three_streams)"
  by (simp add: put_location_def example_location_env_def three_streams_def Let_def nonzero_body_def
      js_less_def js_greater_def to_number_def sse_push_def parseFloat_def example_frame_def
      fun_upd_idem)

text \<open>
  A location update pushed to three streams, a heartbeat, and the opening of a stream
  on an order with a cached location.
\<close>

theorem frames_written_have_type_and_data_witness:
  "pushed_frames (fst (snd (put_location example_location_env (JNum 4) nonzero_body three_streams)))
     = [example_frame, example_frame, example_frame]
   \<and> frame_shape example_frame
   \<and> field example_frame ''timestamp'' = JUndefined
   \<and> field (field example_frame ''data'') ''timestamp'' = JStr (js ''t'')
   \<and> fst (snd (heartbeat_tick all_alive (js ''t'') 1 (JNum 12) three_streams))
       = [(1, heartbeat_frame (js ''t''))]
   \<and> frame_shape (heartbeat_frame (js ''t''))
   \<and> field (heartbeat_frame (js ''t'')) ''data'' = JObj [(''timestamp'', JStr (js ''t''))]
   \<and> map fst (fst (snd (open_stream example_stream_env all_alive 4 (JNum 12) three_streams)))
       = [4, 4]
   \<and> map (\<lambda>w. field (snd w) ''type'')
        (fst (snd (open_stream example_stream_env all_alive 4 (JNum 12) three_streams)))
       = [JStr (js ''connection_established''), JStr (js ''location_update'')]
   \<and> map (\<lambda>w. frame_shape (snd w))
        (fst (snd (open_stream example_stream_env all_alive 4 (JNum 12) three_streams)))
       = [True, True]"
proof -
  have p: "pushed_frames (fst (snd (put_location example_location_env (JNum 4) nonzero_body three_streams)))
             = [example_frame, example_frame, example_frame]"
    by (simp add: put_location_example)
  have h: "fst (snd (heartbeat_tick all_alive (js ''t'') 1 (JNum 12) three_streams))
             = [(1, heartbeat_frame (js ''t''))]"
    by (simp add: heartbeat_tick_def all_alive_def)
  have o: "fst (snd (open_stream example_stream_env all_alive 4 (JNum 12) three_streams))
             = [(4, connection_established_frame (JNum 12)),
                (4, cached_location_frame (JObj [(''latitude'', JNum 40), (''longitude'', JNum (- 74)),
                                    (''timestamp'', JStr (js ''t''))]) (JNum 12))]"
    by (simp add: open_stream_def example_stream_env_def all_alive_def)
  from frames_written_have_type_and_data
      [where env = example_location_env and driverId = "JNum 4" and req_body = nonzero_body
         and sseConnections = three_streams and writable = all_alive and frame = example_frame
         and orderId = "JNum 12" and ts = "js ''t''" and res = 1 and senv = example_stream_env]
    p h o
  show ?thesis
    by (simp add: example_location_env_def frame_shapes connection_frame_literal
        cached_frame_literal)
qed

text \<open>
  The claim as written fails: the frames that the push and the heartbeat write have no
  top-level \<open>timestamp\<close>, and the \<open>data\<close> of a heartbeat is not empty.
\<close>

theorem frame_timestamp_counterexample:
  "pushed_frames (fst (snd (put_location example_location_env (JNum 4) nonzero_body three_streams)))
     = [example_frame, example_frame, example_frame]
   \<and> ''timestamp'' \<notin> set (top_level_fields example_frame)
   \<and> fst (snd (heartbeat_tick all_alive (js ''t'') 1 (JNum 12) three_streams))
       = [(1, heartbeat_frame (js ''t''))]
   \<and> ''timestamp'' \<notin> set (top_level_fields (heartbeat_frame (js ''t'')))
   \<and> field (heartbeat_frame (js ''t'')) ''data'' \<noteq> JObj []"
  by (simp add: put_location_example heartbeat_tick_def all_alive_def example_frame_def
      location_frame_def heartbeat_frame_def)

section \<open>Properties of PUT /api/driver/location\<close>

lemma zero_in_range:
  "\<not> js_less env (JNum 0) (- 90) \<and> \<not> js_greater env (JNum 0) 90
   \<and> \<not> js_less env (JNum 0) (- 180) \<and> \<not> js_greater env (JNum 0) 180"
  by (simp add: js_less_def js_greater_def to_number_def)

text \<open>
  C9. A request whose latitude or longitude is the number 0 is answered 400 with
  \<open>Order ID, latitude, and longitude are required\<close>, the answer a request without
  the field gets, although 0 passes both range checks; it leaves no effect (no row, no
  cache entry, no pushed frame) and the registry as it was.
\<close>

theorem zero_coordinate_rejected:
  "(field req_body ''latitude'' = JNum 0 \<or> field req_body ''longitude'' = JNum 0 \<longrightarrow>
      put_location env driverId req_body sseConnections = (required_response, [], sseConnections))
   \<and> (lookup_field ''latitude'' kvs = JUndefined \<or> lookup_field ''longitude'' kvs = JUndefined \<longrightarrow>
      put_location env driverId (JObj kvs) sseConnections = (required_response, [], sseConnections))
   \<and> \<not> js_less env (JNum 0) (- 90) \<and> \<not> js_greater env (JNum 0) 90
   \<and> \<not> js_less env (JNum 0) (- 180) \<and> \<not> js_greater env (JNum 0) 180"
proof -
  have a: "put_location env driverId req_body sseConnections = (required_response, [], sseConnections)"
    if "field req_body ''latitude'' = JNum 0 \<or> field req_body ''longitude'' = JNum 0"
  proof -
    from that have "req_body \<noteq> JUndefined" "req_body \<noteq> JNull" by auto
    with that show ?thesis
      by (auto simp: put_location_def required_response_def Let_def)
  qed
  have b: "put_location env driverId (JObj kvs) sseConnections = (required_response, [], sseConnections)"
    if "lookup_field ''latitude'' kvs = JUndefined \<or> lookup_field ''longitude'' kvs = JUndefined"
    using that by (auto simp: put_location_def required_response_def Let_def)
  from a b zero_in_range [of env] show ?thesis by blast
qed

text \<open>Latitude 0, longitude 0 and a missing latitude, each on order 12.\<close>

theorem zero_coordinate_rejected_witness:
  "field zero_latitude_body ''latitude'' = JNum 0
   \<and> put_location example_location_env (JNum 4) zero_latitude_body three_streams
       = (required_response, [], three_streams)
   \<and> field zero_longitude_body ''longitude'' = JNum 0
   \<and> put_location example_location_env (JNum 4) zero_longitude_body three_streams
       = (required_response, [], three_streams)
   \<and> put_location example_location_env (JNum 4) missing_latitude_body three_streams
       = (required_response, [], three_streams)"
proof -
  have h1: "field zero_latitude_body ''latitude'' = JNum 0" by (simp add: zero_latitude_body_def)
  have h2: "field zero_longitude_body ''longitude'' = JNum 0" by (simp add: zero_longitude_body_def)
  have h3: "missing_latitude_body = JObj [(''orderId'', JNum 12), (''longitude'', JNum 10)]"
    by (simp add: missing_latitude_body_def)
  have h4: "lookup_field ''latitude'' [(''orderId'', JNum 12), (''longitude'', JNum 10)] = JUndefined"
    by simp
  from zero_coordinate_rejected [of zero_latitude_body example_location_env "JNum 4" three_streams "[]"]
    zero_coordinate_rejected [of zero_longitude_body example_location_env "JNum 4" three_streams "[]"]
    zero_coordinate_rejected [of JNull example_location_env "JNum 4" three_streams
      "[(''orderId'', JNum 12), (''longitude'', JNum 10)]"]
    h1 h2 h3 h4
  show ?thesis by simp
qed

section \<open>Properties of the long poll\<close>

lemma fst_final_status: "fst (final_status db e) = e"
  by (simp add: final_status_def split: query_result.splits)

lemma quiet_step:
  assumes "db elapsed = Row current" and "quiet upload current" and "elapsed < pollTimeout"
  shows "pollForChanges db upload pollTimeout elapsed
           = pollForChanges db upload pollTimeout (elapsed + 1000)"
  using assms by (simp add: quiet_def pollInterval_def)

lemma past_timeout: "pollTimeout \<le> elapsed \<Longrightarrow>
  pollForChanges db upload pollTimeout elapsed = final_status db elapsed"
  by simp

lemma final_status_quiet:
  assumes "db e = Row final" and "quiet upload final"
  shows "final_status db e =
     (e, Status \<lparr>s_status = u_status final, s_progress = u_progress final,
                  s_errorMessage = u_error_message final, s_lastUpdated = u_updated_at final,
                  s_completed = False, s_timeout = True, s_polling = Some (True, 2000)\<rparr>)"
  using assms by (simp add: final_status_def quiet_def)

lemma pollTimeout_of_cap: "pollTimeout_of parsed \<le> 60000"
  by (simp add: pollTimeout_of_def maxTimeout_def)

lemma five_seconds:
  assumes "never_changes upload db"
  shows "pollForChanges db upload 5000 0 = final_status db 5000"
proof -
  have q: "\<And>e. e < 5000 \<Longrightarrow>
             pollForChanges db upload 5000 e = pollForChanges db upload 5000 (e + 1000)"
  proof -
    fix e :: int assume "e < 5000"
    from assms obtain current where "db e = Row current" "quiet upload current"
      unfolding never_changes_def by blast
    then show "pollForChanges db upload 5000 e = pollForChanges db upload 5000 (e + 1000)"
      using \<open>e < 5000\<close> by (rule quiet_step)
  qed
  have "pollForChanges db upload 5000 0 = pollForChanges db upload 5000 5000"
    using q [of 0] q [of 1000] q [of 2000] q [of 3000] q [of 4000] by simp
  moreover have "pollForChanges db upload 5000 5000 = final_status db 5000"
    by (rule past_timeout) simp
  ultimately show ?thesis by (rule trans)
qed

lemma stuck_never_changes: "never_changes processing_50 stuck_at_50"
  by (simp add: never_changes_def stuck_at_50_def quiet_def processing_50_def terminal_def)

lemma fst_final_status_timed:
  "fst (final_status_timed ck db now) = now + int (query_ms ck now)"
  by (simp add: final_status_timed_def)

lemma final_status_instant:
  "query_ms ck now = 0 \<Longrightarrow> final_status_timed ck db now = final_status db now"
  by (simp add: final_status_timed_def prod_eq_iff fst_final_status)

text \<open>With queries that take no time and timers that fire on time, the wall clock is the clock of sleeps.\<close>

lemma instant_is_untimed:
  assumes "\<forall>u. query_ms ck u = 0" and "\<forall>u. timer_late_ms ck u = 0"
  shows "pollForChanges_timed ck db upload pollTimeout now
           = pollForChanges db upload pollTimeout now"
  using assms
proof (induction ck db upload pollTimeout now rule: pollForChanges_timed.induct)
  case (1 ck db upload pollTimeout now)
  have q: "query_ms ck now = 0" and l: "timer_late_ms ck now = 0"
    using "1.prems" by simp_all
  show ?case
  proof (cases "now < pollTimeout")
    case False
    then show ?thesis by (simp add: final_status_instant q)
  next
    case True
    show ?thesis
    proof (cases "db now")
      case QueryError
      with True q show ?thesis by simp
    next
      case NoRow
      with True q show ?thesis by (simp add: final_status_instant)
    next
      case (Row current)
      show ?thesis
      proof (cases "terminal (u_status current) \<or> 5 \<le> \<bar>u_progress current - u_progress upload\<bar>")
        case True
        with \<open>now < pollTimeout\<close> Row q show ?thesis by auto
      next
        case False
        then have nt: "\<not> terminal (u_status current)"
          and np: "\<not> 5 \<le> \<bar>u_progress current - u_progress upload\<bar>" by simp_all
        from "1.IH" [OF \<open>now < pollTimeout\<close> Row nt np "1.prems"] q l
        have "pollForChanges_timed ck db upload pollTimeout (now + pollInterval)
                = pollForChanges db upload pollTimeout (now + pollInterval)"
          by simp
        with \<open>now < pollTimeout\<close> Row nt np q l show ?thesis by simp
      qed
    qed
  qed
qed

lemma timed_bounds:
  assumes "\<forall>u. query_ms ck u \<le> q" and "\<forall>u. timer_late_ms ck u \<le> d"
  shows "(pollTimeout \<le> now \<longrightarrow>
            fst (pollForChanges_timed ck db upload pollTimeout now) = now + int (query_ms ck now))
       \<and> (now < pollTimeout \<longrightarrow>
            now \<le> fst (pollForChanges_timed ck db upload pollTimeout now)
            \<and> fst (pollForChanges_timed ck db upload pollTimeout now)
                < pollTimeout + pollInterval + int d + 2 * int q)"
  using assms
proof (induction ck db upload pollTimeout now rule: pollForChanges_timed.induct)
  case (1 ck db upload pollTimeout now)
  have qb: "\<And>u. int (query_ms ck u) \<le> int q" and db': "\<And>u. int (timer_late_ms ck u) \<le> int d"
    using "1.prems" by simp_all
  show ?case
  proof (cases "now < pollTimeout")
    case False
    then show ?thesis by (simp add: fst_final_status_timed)
  next
    case True
    show ?thesis
    proof (cases "db now")
      case QueryError
      with True qb [of now] show ?thesis by (simp add: pollInterval_def)
    next
      case NoRow
      with True qb [of now] qb [of "now + int (query_ms ck now)"] show ?thesis
        by (simp add: fst_final_status_timed pollInterval_def)
    next
      case (Row current)
      show ?thesis
      proof (cases "terminal (u_status current) \<or> 5 \<le> \<bar>u_progress current - u_progress upload\<bar>")
        case True
        with \<open>now < pollTimeout\<close> Row qb [of now] show ?thesis
          by (auto simp: pollInterval_def)
      next
        case False
        then have nt: "\<not> terminal (u_status current)"
          and np: "\<not> 5 \<le> \<bar>u_progress current - u_progress upload\<bar>" by simp_all
        let ?next = "now + int (query_ms ck now) + pollInterval
                       + int (timer_late_ms ck (now + int (query_ms ck now)))"
        have step: "pollForChanges_timed ck db upload pollTimeout now
                      = pollForChanges_timed ck db upload pollTimeout ?next"
          using \<open>now < pollTimeout\<close> Row nt np by simp
        have nb: "now \<le> ?next" "?next \<le> now + int q + pollInterval + int d"
          using qb [of now] db' [of "now + int (query_ms ck now)"] by (simp_all add: pollInterval_def)
        from "1.IH" [OF \<open>now < pollTimeout\<close> Row nt np "1.prems"]
        have ih: "(pollTimeout \<le> ?next \<longrightarrow>
                     fst (pollForChanges_timed ck db upload pollTimeout ?next)
                       = ?next + int (query_ms ck ?next))
                  \<and> (?next < pollTimeout \<longrightarrow>
                     ?next \<le> fst (pollForChanges_timed ck db upload pollTimeout ?next)
                     \<and> fst (pollForChanges_timed ck db upload pollTimeout ?next)
                         < pollTimeout + pollInterval + int d + 2 * int q)" .
        show ?thesis
        proof (cases "pollTimeout \<le> ?next")
          case True
          with ih have "fst (pollForChanges_timed ck db upload pollTimeout ?next)
                          = ?next + int (query_ms ck ?next)" by blast
          with nb qb [of ?next] \<open>now < pollTimeout\<close> show ?thesis
            unfolding step by simp
        next
          case False
          with ih nb \<open>now < pollTimeout\<close> show ?thesis unfolding step by simp
        qed
      qed
    qed
  qed
qed

text \<open>
  When the row never changes materially, the answer is the one of the read after the
  loop, issued at a time that is neither before the time the loop was entered nor
  before the timeout.
\<close>

lemma timed_quiet_run:
  "never_changes upload db \<Longrightarrow>
   \<exists>u. pollForChanges_timed ck db upload pollTimeout now = final_status_timed ck db u
       \<and> now \<le> u \<and> pollTimeout \<le> u"
proof (induction ck db upload pollTimeout now rule: pollForChanges_timed.induct)
  case (1 ck db upload pollTimeout now)
  from "1.prems" obtain current where cur: "db now = Row current" "quiet upload current"
    unfolding never_changes_def by blast
  show ?case
  proof (cases "now < pollTimeout")
    case False
    then show ?thesis by auto
  next
    case True
    from cur have nt: "\<not> terminal (u_status current)"
      and np: "\<not> 5 \<le> \<bar>u_progress current - u_progress upload\<bar>"
      by (simp_all add: quiet_def)
    let ?next = "now + int (query_ms ck now) + pollInterval
                   + int (timer_late_ms ck (now + int (query_ms ck now)))"
    have step: "pollForChanges_timed ck db upload pollTimeout now
                  = pollForChanges_timed ck db upload pollTimeout ?next"
      using True cur(1) nt np by simp
    from "1.IH" [OF True cur(1) nt np "1.prems"] obtain u where
      u: "pollForChanges_timed ck db upload pollTimeout ?next = final_status_timed ck db u"
         "?next \<le> u" "pollTimeout \<le> u"
      by blast
    have "now \<le> ?next" by (simp add: pollInterval_def)
    with u show ?thesis unfolding step by (intro exI [of _ u]) simp
  qed
qed

lemma get_status_timed_bounds:
  assumes "\<forall>u. query_ms ck u \<le> q" and "\<forall>u. timer_late_ms ck u \<le> d"
  shows "0 \<le> fst (get_status_timed ck parsed uploadCheck db)
       \<and> fst (get_status_timed ck parsed uploadCheck db)
           < max 0 (pollTimeout_of parsed) + pollInterval + int d + 2 * int q"
proof (cases uploadCheck)
  case (Row upload)
  show ?thesis
  proof (cases "terminal (u_status upload)")
    case True
    with Row show ?thesis by (simp add: get_status_timed_def pollInterval_def)
  next
    case False
    with Row have eq: "get_status_timed ck parsed uploadCheck db
                         = pollForChanges_timed ck db upload (pollTimeout_of parsed) 0"
      by (simp add: get_status_timed_def)
    from assms have "int (query_ms ck 0) \<le> int q" by simp
    with timed_bounds [OF assms, of "pollTimeout_of parsed" 0 db upload] show ?thesis
      unfolding eq by (cases "pollTimeout_of parsed \<le> 0") (auto simp: pollInterval_def)
  qed
qed (simp_all add: get_status_timed_def pollInterval_def)

text \<open>
  C4 (amended). The timeout in force is at most 60000 ms: a requested timeout that
  parses to an integer other than 0 is capped at 60000 and otherwise taken as it is; a
  timeout that is missing, unparsable or 0 is replaced by the default of 30000 ms. On
  the wall clock, when every query takes at most \<open>q\<close> ms and every timer fires at most
  \<open>d\<close> ms late, the answer comes at a time that is not negative and less than the
  timeout in force plus one poll interval of 1000 ms plus \<open>d + 2 q\<close>: so before
  \<open>t + 1000 + d + 2 q\<close> for a positive request \<open>t\<close>. When the row never changes
  materially, the answer is the row read after the loop, not before the timeout in
  force, with \<open>timeout: true\<close> and \<open>completed: false\<close>; and when moreover queries
  take no time and timers fire on time, a request of 5000 ms is answered at 5000 ms.
\<close>

theorem long_poll_wall_clock_bounded:
  "pollTimeout_of parsed \<le> 60000
   \<and> (parsed = Some t \<and> t \<noteq> 0 \<longrightarrow> pollTimeout_of parsed = min t 60000)
   \<and> (parsed = None \<or> parsed = Some 0 \<longrightarrow> pollTimeout_of parsed = 30000)
   \<and> ((\<forall>u. query_ms ck u \<le> q) \<and> (\<forall>u. timer_late_ms ck u \<le> d) \<longrightarrow>
        0 \<le> fst (get_status_timed ck parsed uploadCheck db)
        \<and> fst (get_status_timed ck parsed uploadCheck db)
            < max 0 (pollTimeout_of parsed) + pollInterval + int d + 2 * int q
        \<and> (parsed = Some t \<and> 0 < t \<longrightarrow>
             fst (get_status_timed ck parsed uploadCheck db)
               < t + pollInterval + int d + 2 * int q))
   \<and> (never_changes upload db \<and> \<not> terminal (u_status upload) \<longrightarrow>
        (\<exists>final u. db u = Row final \<and> quiet upload final \<and> pollTimeout_of parsed \<le> u
           \<and> get_status_timed ck parsed (Row upload) db =
               (u + int (query_ms ck u),
                Status \<lparr>s_status = u_status final, s_progress = u_progress final,
                        s_errorMessage = u_error_message final,
                        s_lastUpdated = u_updated_at final,
                        s_completed = False, s_timeout = True, s_polling = Some (True, 2000)\<rparr>)))
   \<and> (never_changes upload db \<and> \<not> terminal (u_status upload)
        \<and> (\<forall>u. query_ms ck u = 0) \<and> (\<forall>u. timer_late_ms ck u = 0) \<longrightarrow>
        fst (get_status_timed ck (Some 5000) (Row upload) db) = 5000)"
proof -
  have cap: "pollTimeout_of parsed \<le> 60000" by (rule pollTimeout_of_cap)
  have a: "parsed = Some t \<and> t \<noteq> 0 \<longrightarrow> pollTimeout_of parsed = min t 60000"
    by (simp add: pollTimeout_of_def requested_timeout_def maxTimeout_def)
  have b: "parsed = None \<or> parsed = Some 0 \<longrightarrow> pollTimeout_of parsed = 30000"
    by (auto simp: pollTimeout_of_def requested_timeout_def maxTimeout_def)
  have c: "0 \<le> fst (get_status_timed ck parsed uploadCheck db)
        \<and> fst (get_status_timed ck parsed uploadCheck db)
            < max 0 (pollTimeout_of parsed) + pollInterval + int d + 2 * int q
        \<and> (parsed = Some t \<and> 0 < t \<longrightarrow>
             fst (get_status_timed ck parsed uploadCheck db)
               < t + pollInterval + int d + 2 * int q)"
    if bounds: "(\<forall>u. query_ms ck u \<le> q) \<and> (\<forall>u. timer_late_ms ck u \<le> d)"
  proof -
    from bounds have b1: "\<forall>u. query_ms ck u \<le> q" and b2: "\<forall>u. timer_late_ms ck u \<le> d"
      by simp_all
    from get_status_timed_bounds [OF b1 b2, of parsed uploadCheck db] a show ?thesis by auto
  qed
  have e: "\<exists>final u. db u = Row final \<and> quiet upload final \<and> pollTimeout_of parsed \<le> u
           \<and> get_status_timed ck parsed (Row upload) db =
               (u + int (query_ms ck u),
                Status \<lparr>s_status = u_status final, s_progress = u_progress final,
                        s_errorMessage = u_error_message final,
                        s_lastUpdated = u_updated_at final,
                        s_completed = False, s_timeout = True, s_polling = Some (True, 2000)\<rparr>)"
    if nc: "never_changes upload db \<and> \<not> terminal (u_status upload)"
  proof -
    from nc have eq: "get_status_timed ck parsed (Row upload) db
                        = pollForChanges_timed ck db upload (pollTimeout_of parsed) 0"
      by (simp add: get_status_timed_def)
    from nc timed_quiet_run [of upload db ck "pollTimeout_of parsed" 0] obtain u where
      u: "pollForChanges_timed ck db upload (pollTimeout_of parsed) 0 = final_status_timed ck db u"
         "pollTimeout_of parsed \<le> u"
      by blast
    from nc obtain final where fin: "db u = Row final" "quiet upload final"
      unfolding never_changes_def by blast
    from final_status_quiet [where db = db and e = u and final = final and upload = upload, OF fin]
    have "final_status_timed ck db u =
               (u + int (query_ms ck u),
                Status \<lparr>s_status = u_status final, s_progress = u_progress final,
                        s_errorMessage = u_error_message final,
                        s_lastUpdated = u_updated_at final,
                        s_completed = False, s_timeout = True, s_polling = Some (True, 2000)\<rparr>)"
      by (simp add: final_status_timed_def)
    with eq u fin show ?thesis by auto
  qed
  have f: "fst (get_status_timed ck (Some 5000) (Row upload) db) = 5000"
    if h: "never_changes upload db \<and> \<not> terminal (u_status upload)
           \<and> (\<forall>u. query_ms ck u = 0) \<and> (\<forall>u. timer_late_ms ck u = 0)"
  proof -
    have "pollTimeout_of (Some 5000) = 5000"
      by (simp add: pollTimeout_of_def requested_timeout_def maxTimeout_def)
    with h have "get_status_timed ck (Some 5000) (Row upload) db
                   = pollForChanges_timed ck db upload 5000 0"
      by (simp add: get_status_timed_def)
    also from h have "\<dots> = pollForChanges db upload 5000 0"
      by (intro instant_is_untimed) simp_all
    also from h have "\<dots> = final_status db 5000" by (intro five_seconds) simp
    finally show ?thesis by (simp add: fst_final_status)
  qed
  from cap a b c e f show ?thesis by blast
qed

text \<open>
  An upload stuck at 50 percent, polled with \<open>timeout=5000\<close>: answered at 5000 ms
  when queries take no time, and before 6100 ms when each takes 50 ms. A request of
  100000 ms is cut to 60000 ms.
\<close>

theorem long_poll_wall_clock_bounded_witness:
  "never_changes processing_50 stuck_at_50 \<and> \<not> terminal (u_status processing_50)
   \<and> pollTimeout_of (Some 5000) = 5000
   \<and> pollTimeout_of (Some 100000) = 60000
   \<and> (\<forall>u. query_ms instant_clock u = 0) \<and> (\<forall>u. timer_late_ms instant_clock u = 0)
   \<and> (\<forall>u. query_ms clock_50ms u \<le> 50) \<and> (\<forall>u. timer_late_ms clock_50ms u \<le> 0)
   \<and> fst (get_status_timed instant_clock (Some 5000) (Row processing_50) stuck_at_50) = 5000
   \<and> fst (get_status_timed clock_50ms (Some 5000) (Row processing_50) stuck_at_50)
       < 5000 + pollInterval + int 0 + 2 * int 50
   \<and> snd (get_status_timed clock_50ms (Some 5000) (Row processing_50) stuck_at_50) =
        Status \<lparr>s_status = ''processing'', s_progress = 50, s_errorMessage = JNull,
                s_lastUpdated = JStr (js ''t0''), s_completed = False, s_timeout = True,
                s_polling = Some (True, 2000)\<rparr>"
proof -
  have h1: "never_changes processing_50 stuck_at_50" by (rule stuck_never_changes)
  have h2: "\<not> terminal (u_status processing_50)" by (simp add: processing_50_def terminal_def)
  have h3: "(\<forall>u. query_ms instant_clock u = 0) \<and> (\<forall>u. timer_late_ms instant_clock u = 0)"
    by (simp add: instant_clock_def)
  have h4: "(\<forall>u. query_ms clock_50ms u \<le> 50) \<and> (\<forall>u. timer_late_ms clock_50ms u \<le> 0)"
    by (simp add: clock_50ms_def)
  from long_poll_wall_clock_bounded
      [of "Some 5000" 5000 instant_clock 0 0 "Row processing_50" stuck_at_50 processing_50]
    long_poll_wall_clock_bounded
      [of "Some 100000" 100000 instant_clock 0 0 "Row processing_50" stuck_at_50 processing_50]
    long_poll_wall_clock_bounded
      [of "Some 5000" 5000 clock_50ms 50 0 "Row processing_50" stuck_at_50 processing_50]
    h1 h2 h3 h4
  show ?thesis by (auto simp: stuck_at_50_def processing_50_def)
qed

text \<open>
  The claim as written fails in two ways. A requested timeout of 0 waits the default
  30000 ms. And the bound of the timeout plus one poll interval does not hold on the
  wall clock: with queries of 50 ms a request of 5000 ms is answered at 5300 ms, after
  5100 ms; with queries of 5 ms a request of 5030 ms is answered at 6035 ms, after 6030 ms.
\<close>

theorem long_poll_counterexample:
  "never_changes processing_50 stuck_at_50
   \<and> fst (get_status_timed instant_clock (Some 0) (Row processing_50) stuck_at_50) = 30000
   \<and> \<not> fst (get_status_timed instant_clock (Some 0) (Row processing_50) stuck_at_50)
          \<le> 0 + pollInterval
   \<and> fst (get_status_timed clock_50ms (Some 5000) (Row processing_50) stuck_at_50) = 5300
   \<and> \<not> fst (get_status_timed clock_50ms (Some 5000) (Row processing_50) stuck_at_50) \<le> 5100
   \<and> fst (get_status_timed clock_5ms (Some 5030) (Row processing_50) stuck_at_50) = 6035
   \<and> \<not> fst (get_status_timed clock_5ms (Some 5030) (Row processing_50) stuck_at_50)
          \<le> 5030 + pollInterval"
proof -
  have a: "fst (get_status_timed instant_clock (Some 0) (Row processing_50) stuck_at_50) = 30000"
    by code_simp
  have b: "fst (get_status_timed clock_50ms (Some 5000) (Row processing_50) stuck_at_50) = 5300"
    by code_simp
  have c: "fst (get_status_timed clock_5ms (Some 5030) (Row processing_50) stuck_at_50) = 6035"
    by code_simp
  from a b c stuck_never_changes show ?thesis by (simp add: pollInterval_def)
qed





text \<open>
  On the wall clock too, a poll that sees such a jump is the last one: the answer comes
  when its query returns.
\<close>

lemma jump_wakes_timed:
  assumes "now < pollTimeout" and "db now = Row current"
    and "\<not> terminal (u_status current)"
    and "u_progress current \<le> u_progress upload - 5 \<or> u_progress upload + 5 \<le> u_progress current"
  shows "pollForChanges_timed ck db upload pollTimeout now =
     (now + int (query_ms ck now),
      Status \<lparr>s_status = u_status current, s_progress = u_progress current,
              s_errorMessage = u_error_message current, s_lastUpdated = u_updated_at current,
              s_completed = False, s_timeout = False, s_polling = Some (True, 2000)\<rparr>)"
proof -
  from assms(4) have "5 \<le> \<bar>u_progress current - u_progress upload\<bar>" by linarith
  with assms(1-3) show ?thesis by simp
qed

section \<open>Properties of the order status updates\<close>

text \<open>
  C1 (the code departs from the claim). Neither update reads the status the order has.
  A driver sets the confirmed order 1 to \<open>delivered\<close> in one step: the answer is 200
  and both the table and the cache entry say \<open>delivered\<close>. The restaurant sets order
  2, which is being prepared, to \<open>preparing\<close> again: 200. Over the socket the staff
  cancel order 3, which is delivered: the update is confirmed and the table says
  \<open>cancelled\<close>.
\<close>

theorem status_update_skips_state_machine:
  "stored_status example_orders 1 = Some (js ''confirmed'')
   \<and> status_code (fst (put_order_status example_orders_env example_orders 1 3 ''driver''
        (status_request ''delivered''))) = 200
   \<and> stored_status (snd (put_order_status example_orders_env example_orders 1 3 ''driver''
        (status_request ''delivered''))) 1 = Some (js ''delivered'')
   \<and> cached_status_of (snd (put_order_status example_orders_env example_orders 1 3 ''driver''
        (status_request ''delivered''))) 1 = Some (js ''delivered'')
   \<and> stored_status example_orders 2 = Some (js ''preparing'')
   \<and> status_code (fst (put_order_status example_orders_env example_orders 2 2 ''restaurant''
        (status_request ''preparing''))) = 200
   \<and> stored_status example_orders 3 = Some (js ''delivered'')
   \<and> map em_event (fst (update_order_status example_orders_env example_orders restaurant_rooms
        staff_socket 3 (status_request ''cancelled''))) = [''order-status-updated'', ''order-status-updated'', ''order-status-update'',
        ''status-update-confirmed'']
   \<and> stored_status (snd (update_order_status example_orders_env example_orders restaurant_rooms
        staff_socket 3 (status_request ''cancelled''))) 3 = Some (js ''cancelled'')"
  by (simp add: put_order_status_def apply_update_def update_order_status_def example_orders_def
      example_orders_env_def status_request_def staff_socket_def stored_status_def
      cached_status_of_def js_includes_def validStatuses_def js_def Let_def restaurant_update_def
      driver_update_def restaurant_rooms_def io_to_emit_def socket_emit_def)

text \<open>What the route does check: the role, and the statuses a role may set.\<close>

lemma apply_update_not_found:
  "status_code (fst (apply_update env db orderId None)) \<noteq> 200
   \<and> snd (apply_update env db orderId None) = db"
  by (simp add: apply_update_def Let_def)

lemma put_order_status_role_gate:
  assumes "status_code (fst (put_order_status env db orderId user_id user_type req_body)) = 200"
  shows "(user_type = ''restaurant'' \<and> js_includes [''preparing'', ''ready''] (field req_body ''status''))
       \<or> (user_type = ''driver'' \<and> js_includes [''picked_up'', ''delivered''] (field req_body ''status''))"
  using assms
  by (simp add: put_order_status_def Let_def split: if_splits)

section \<open>Properties of the announcements\<close>

lemma rooms_joined:
  "rooms_after_subscription r =
     (if r = announcement_room (js ''all'') \<or> r = announcement_room (js ''customer'') then [1]
      else [])"
  by (simp add: rooms_after_subscription_def subscribe_announcements_def no_rooms_def
      example_verify_def customer_subscription_def js_includes_def validUserTypes_def
      join_def set_add_def announcement_room_def js_def Let_def)

text \<open>
  C2 (the code departs from the claim). A customer subscribes with
  \<open>userType = "customer"\<close> and joins the rooms \<open>announcements-customer\<close> and
  \<open>announcements-all\<close>. An announcement for the audience \<open>customers\<close> is published
  on the channel \<open>announcements-customers\<close> and emitted to the room of that name,
  which nobody joined: the subscriber gets it 0 times. An announcement for \<open>all\<close>,
  published on four channels, reaches the subscriber once.
\<close>

theorem audience_announcement_not_delivered:
  "fst (subscribe_announcements example_verify no_rooms 1 customer_subscription)
     = socket_emit 1 ''subscribed-announcements''
         (JObj [(''userType'', JStr (js ''customer'')),
                (''rooms'', JArr [JStr (js ''announcements-customer''), JStr (js ''announcements-all'')]),
                (''message'', JStr (js ''Subscribed to announcements successfully''))])
   \<and> map fst (broadcastAnnouncement (js ''t'') (example_announcement ''customers''))
       = [''announcements-customers'']
   \<and> deliveries ''new-announcement'' 1
        (announce rooms_after_subscription (js ''t'') (example_announcement ''customers'')) = 0
   \<and> deliveries ''new-announcement'' 1
        (announce rooms_after_subscription (js ''t'') (example_announcement ''all'')) = 1"
  by (simp add: rooms_joined announce_def broadcastAnnouncement_def on_message_def subscriber_userTypes_def
      example_announcement_def deliveries_def io_to_emit_def announcement_room_def
      subscribe_announcements_def example_verify_def customer_subscription_def
      js_includes_def validUserTypes_def js_def Let_def)

lemma subscribed_rooms:
  assumes "js_includes validUserTypes ut" and "truthy tok" and "truthy (verify tok)"
  shows "snd (subscribe_announcements verify no_rooms s (JObj [(''userType'', ut), (''token'', tok)])) r
           = (if r = announcement_room (js ''all'') \<or> r = announcement_room (status_text ut)
              then [s] else [])"
  using assms
  by (auto simp: subscribe_announcements_def no_rooms_def join_def set_add_def Let_def)

lemma valid_user_type_cases:
  "js_includes validUserTypes ut \<Longrightarrow>
   status_text ut = js ''customer'' \<or> status_text ut = js ''restaurant''
   \<or> status_text ut = js ''driver'' \<or> status_text ut = js ''support''"
  by (auto simp: js_includes_def validUserTypes_def)

text \<open>
  Whatever valid user type a socket subscribes with, it gets an announcement for
  \<open>all\<close> exactly once, and an announcement for \<open>customers\<close>, \<open>restaurants\<close> or
  \<open>drivers\<close> not at all: the rooms it joined are named in the singular, the channels
  and the rooms the subscribers emit to in the plural.
\<close>

lemma all_audience_once:
  assumes "js_includes validUserTypes ut" and "truthy tok" and "truthy (verify tok)"
    and "a_target_audience a = ''all''"
  shows "deliveries ''new-announcement'' s
           (announce (snd (subscribe_announcements verify no_rooms s
                             (JObj [(''userType'', ut), (''token'', tok)]))) now a) = 1"
  using valid_user_type_cases [OF assms(1)] assms(4)
  by (auto simp: subscribed_rooms [where verify = verify and tok = tok and ut = ut, OF assms(1-3)] announce_def broadcastAnnouncement_def
      on_message_def subscriber_userTypes_def deliveries_def io_to_emit_def
      announcement_room_def js_def)

lemma tier_audience_never:
  assumes "js_includes validUserTypes ut" and "truthy tok" and "truthy (verify tok)"
    and "a_target_audience a \<in> set [''customers'', ''restaurants'', ''drivers'']"
  shows "deliveries ''new-announcement'' s
           (announce (snd (subscribe_announcements verify no_rooms s
                             (JObj [(''userType'', ut), (''token'', tok)]))) now a) = 0"
  using valid_user_type_cases [OF assms(1)] assms(4)
  by (auto simp: subscribed_rooms [where verify = verify and tok = tok and ut = ut, OF assms(1-3)] announce_def broadcastAnnouncement_def
      on_message_def subscriber_userTypes_def deliveries_def io_to_emit_def
      announcement_room_def js_def)

end
